theory Spec2Isabelle
  imports Complex_Main "HOL-Library.Char_ord" "HOL-Library.List_Lexorder"
begin

section \<open>Python values, messages and exceptions\<close>

text \<open>
  The module \<^verbatim>\<open>formula.py\<close> computes one new column of a pandas table from a formula.
  Cell values are Python objects. The constructors below are the kinds of object the module
  tells apart: the two nulls (\<^verbatim>\<open>None\<close> and the float \<^verbatim>\<open>nan\<close>), booleans, integers,
  floats, strings, timestamps (nanoseconds since 1970-01-01) and any other object, known
  only by its identity. Floats are modelled by the rationals they denote: rounding to
  64 bits and the infinities are not part of this model.
\<close>

datatype pyval =
    PNone
  | PNaN
  | PBool bool
  | PInt int
  | PFloat rat
  | PStr string
  | PDatetime int
  | PObj nat

text \<open>\<^verbatim>\<open>pd.isna\<close> on one cell.\<close>

fun isna :: "pyval \<Rightarrow> bool" where
  "isna PNone = True"
| "isna PNaN = True"
| "isna _ = False"

fun is_str :: "pyval \<Rightarrow> bool" where
  "is_str (PStr _) = True"
| "is_str _ = False"

text \<open>
  Python's builtin \<^verbatim>\<open>str\<close> is not code of this module: it is a parameter \<open>str\<close> of the
  model, except on a string, which \<^verbatim>\<open>str\<close> returns as it is.
\<close>

definition py_str :: "(pyval \<Rightarrow> string) \<Rightarrow> pyval \<Rightarrow> string" where
  "py_str str v = (case v of PStr s \<Rightarrow> s | _ \<Rightarrow> str v)"

text \<open>
  \<^verbatim>\<open>i18n.trans(id, default, arguments)\<close> of cjwmodule builds a message from its id and
  its arguments; the default text is only the English source of the catalogue.
\<close>

datatype i18n_message = I18nMessage string "(string \<times> string) list"

definition trans :: "string \<Rightarrow> string \<Rightarrow> (string \<times> string) list \<Rightarrow> i18n_message" where
  "trans msg_id default_text arguments = I18nMessage msg_id arguments"

text \<open>
  Exceptions are values. \<^verbatim>\<open>UserVisibleError\<close> is the module's own class and carries a
  message. \<^verbatim>\<open>DispatcherError\<close> is schedula's: the module reads its \<^verbatim>\<open>args[1]\<close> (the name
  of the function) and asks whether \<^verbatim>\<open>args[2]\<close> is a \<^verbatim>\<open>NotImplementedError\<close>. Every other
  subclass of \<^verbatim>\<open>Exception\<close> is \<open>PyException\<close> with its class name and its \<^verbatim>\<open>str\<close>; an
  exception outside \<^verbatim>\<open>Exception\<close> (\<^verbatim>\<open>SystemExit\<close>, \<^verbatim>\<open>KeyboardInterrupt\<close>) is
  \<open>PyBaseException\<close>.
\<close>

datatype cause = NotImplementedError | OtherCause

datatype exn =
    UserVisibleError i18n_message
  | DispatcherError string string cause
  | PyException string string
  | PyBaseException string

text \<open>\<^verbatim>\<open>isinstance(e, Exception)\<close>.\<close>

fun is_Exception :: "exn \<Rightarrow> bool" where
  "is_Exception (PyBaseException _) = False"
| "is_Exception _ = True"



text \<open>Sequencing of computations that may raise: the first exception ends the run.\<close>

definition bind_exn :: "exn + 'a \<Rightarrow> ('a \<Rightarrow> exn + 'b) \<Rightarrow> exn + 'b" where
  "bind_exn m f = (case m of Inl e \<Rightarrow> Inl e | Inr x \<Rightarrow> f x)"

lemma bind_exn_simps [simp]:
  "bind_exn (Inl e) f = Inl e" "bind_exn (Inr x) f = f x"
  by (simp_all add: bind_exn_def)

section \<open>Decimal numerals\<close>

text \<open>
  An f-string prints the integer \<open>n\<close> in decimal.
\<close>

definition digit_char :: "nat \<Rightarrow> char" where
  "digit_char d = ''0123456789'' ! d"

fun str_nat :: "nat \<Rightarrow> string" where
  "str_nat n = (if n < 10 then [digit_char n] else str_nat (n div 10) @ [digit_char (n mod 10)])"

declare str_nat.simps [simp del]

text \<open>The decimal numeral of an integer, as \<^verbatim>\<open>str\<close> prints it.\<close>

definition str_int :: "int \<Rightarrow> string" where
  "str_int i = (if i < 0 then CHR ''-'' # str_nat (nat (- i)) else str_nat (nat i))"

text \<open>The value of a decimal numeral, used to show that \<open>str_nat\<close> is injective.\<close>

definition nat_of_str :: "string \<Rightarrow> nat" where
  "nat_of_str s = foldl (\<lambda>a c. 10 * a + (of_char c - 48)) 0 s"

lemma nat_of_str_snoc: "nat_of_str (s @ [c]) = 10 * nat_of_str s + (of_char c - 48)"
  by (simp add: nat_of_str_def)

lemma of_char_digit_char: "d < 10 \<Longrightarrow> of_char (digit_char d) - (48::nat) = d"
proof -
  assume "d < 10"
  then consider "d = 0" | "d = 1" | "d = 2" | "d = 3" | "d = 4" | "d = 5" | "d = 6"
    | "d = 7" | "d = 8" | "d = 9"
    by atomize_elim arith
  then show ?thesis by cases (simp_all add: digit_char_def)
qed

lemma nat_of_str_str_nat: "nat_of_str (str_nat n) = n"
proof (induction n rule: str_nat.induct)
  case (1 n)
  show ?case
  proof (cases "n < 10")
    case True
    then show ?thesis
      by (subst str_nat.simps) (simp add: nat_of_str_def of_char_digit_char)
  next
    case False
    have "n mod 10 < 10" by simp
    with False 1 show ?thesis
      by (subst str_nat.simps) (simp add: nat_of_str_snoc of_char_digit_char)
  qed
qed

lemma inj_str_nat: "inj str_nat"
  by (rule inj_on_inverseI [where g = nat_of_str]) (rule nat_of_str_str_nat)

lemma finite_suffixes: "finite {m. out_column @ str_nat m \<in> set columns}"
proof -
  have "inj (\<lambda>m. out_column @ str_nat m)"
    using inj_str_nat by (auto simp: inj_def)
  then have "finite ((\<lambda>m. out_column @ str_nat m) -` set columns)"
    by (intro finite_vimageI) simp_all
  then show ?thesis by (simp add: vimage_def)
qed

section \<open>Columns\<close>

text \<open>
  A pandas \<^verbatim>\<open>Series\<close>, by its dtype. \<open>ObjectS\<close> holds any Python objects;
  \<open>CategoryS\<close> holds the index of its categories and one code per row, \<open>-1\<close> for a null;
  \<open>NumericS\<close> is int64 or float64 (\<open>None\<close> is NaN); \<open>BoolS\<close> is the dtype bool, which
  \<^verbatim>\<open>is_numeric_dtype\<close> accepts; \<open>DatetimeS\<close> is datetime64[ns] in nanoseconds since
  1970-01-01 (\<open>None\<close> is NaT); \<open>OtherS\<close> is any other dtype. The row labels of a series
  are not modelled: every series below is read by position, as after
  \<^verbatim>\<open>reset_index(drop=True)\<close>.

  The categories of a categorical are a pandas \<^verbatim>\<open>Index\<close> with a dtype of its own, which
  \<^verbatim>\<open>sanitize_series\<close> inspects.
\<close>

datatype index =
    NumericIndex "rat list"
  | ObjectIndex "pyval list"
  | OtherIndex "pyval list"

datatype series =
    ObjectS "pyval list"
  | CategoryS index "int list"
  | NumericS "rat option list"
  | BoolS "bool list"
  | DatetimeS "int option list"
  | OtherS "pyval list"

fun index_values :: "index \<Rightarrow> pyval list" where
  "index_values (NumericIndex ns) = map PFloat ns"
| "index_values (ObjectIndex vs) = vs"
| "index_values (OtherIndex vs) = vs"

text \<open>\<^verbatim>\<open>index.take(positions)\<close>, for positions inside the index.\<close>

fun index_take :: "nat list \<Rightarrow> index \<Rightarrow> index" where
  "index_take ps (NumericIndex ns) = NumericIndex (map (\<lambda>p. ns ! p) ps)"
| "index_take ps (ObjectIndex vs) = ObjectIndex (map (\<lambda>p. vs ! p) ps)"
| "index_take ps (OtherIndex vs) = OtherIndex (map (\<lambda>p. vs ! p) ps)"

fun series_len :: "series \<Rightarrow> nat" where
  "series_len (ObjectS vs) = length vs"
| "series_len (CategoryS cats codes) = length codes"
| "series_len (NumericS xs) = length xs"
| "series_len (BoolS bs) = length bs"
| "series_len (DatetimeS ts) = length ts"
| "series_len (OtherS vs) = length vs"

text \<open>The first exception of a list of computations, or all their results.\<close>

fun traverse :: "('a \<Rightarrow> exn + 'b) \<Rightarrow> 'a list \<Rightarrow> exn + 'b list" where
  "traverse f [] = Inr []"
| "traverse f (x # xs) =
     (case f x of Inl e \<Rightarrow> Inl e
      | Inr y \<Rightarrow> (case traverse f xs of Inl e \<Rightarrow> Inl e | Inr ys \<Rightarrow> Inr (y # ys)))"

text \<open>The position of the first \<open>x\<close> in \<open>xs\<close>.\<close>

definition index_of :: "'a list \<Rightarrow> 'a \<Rightarrow> nat" where
  "index_of xs x = length (takeWhile (\<lambda>y. y \<noteq> x) xs)"

text \<open>
  pandas keeps every code of a categorical between \<open>-1\<close> and the number of categories.
  The model reads a category through \<open>code_ok\<close>; where a code is outside the categories
  it raises \<^verbatim>\<open>IndexError\<close>, as \<^verbatim>\<open>take\<close> does.
\<close>

definition code_ok :: "nat \<Rightarrow> int \<Rightarrow> bool" where
  "code_ok k c = (- 1 \<le> c \<and> c < int k)"

definition index_error :: exn where
  "index_error = PyException ''IndexError'' ''index out of bounds''"

text \<open>The cells of a categorical: the category of each code, NaN for the code \<open>-1\<close>.\<close>

definition categorical_values :: "index \<Rightarrow> int list \<Rightarrow> exn + pyval list" where
  "categorical_values cats codes =
     (if list_all (code_ok (length (index_values cats))) codes
      then Inr (map (\<lambda>c. if c = - 1 then PNaN else index_values cats ! nat c) codes)
      else Inl index_error)"

text \<open>
  \<^verbatim>\<open>series.cat.remove_unused_categories(inplace=True)\<close>. pandas computes
  \<^verbatim>\<open>idx, inv = np.unique(codes, return_inverse=True)\<close>, drops a leading \<open>-1\<close>, takes the
  categories at \<open>idx\<close> and uses \<open>inv\<close> as the new codes: the categories in use keep
  their order, and each code becomes its rank among the codes in use.
\<close>

definition remove_unused_categories :: "index \<Rightarrow> int list \<Rightarrow> exn + index \<times> int list" where
  "remove_unused_categories cats codes =
     (if list_all (code_ok (length (index_values cats))) codes
      then (let idx = sort (remdups (filter (\<lambda>c. c \<noteq> - 1) codes))
            in Inr (index_take (map nat idx) cats,
                    map (\<lambda>c. if c = - 1 then - 1 else int (index_of idx c)) codes))
      else Inl index_error)"

text \<open>
  \<^verbatim>\<open>pd.Categorical(values)\<close> on values without nulls that can be sorted: the categories
  are the sorted distinct values, the codes their positions.
\<close>

definition factorize :: "('a::linorder) list \<Rightarrow> 'a list \<times> int list" where
  "factorize vs =
     (let cats = sort (remdups vs) in (cats, map (\<lambda>v. int (index_of cats v)) vs))"

text \<open>
  \<^verbatim>\<open>pd.to_numeric\<close> on one cell of an object array (pandas'
  \<^verbatim>\<open>maybe_convert_numeric\<close>): nulls and the empty string are NaN, booleans and numbers
  are numbers, any other string must parse as a number, and any other object is refused.
  The parser of numerals is pandas' own: it is the parameter \<open>parse\<close>, which gives
  nothing for a string that is no numeral, NaN (\<open>Some None\<close>) or a number.
\<close>

fun convert_numeric :: "(string \<Rightarrow> rat option option) \<Rightarrow> pyval \<Rightarrow> exn + rat option" where
  "convert_numeric parse PNone = Inr None"
| "convert_numeric parse PNaN = Inr None"
| "convert_numeric parse (PBool b) = Inr (Some (if b then 1 else 0))"
| "convert_numeric parse (PInt i) = Inr (Some (of_int i))"
| "convert_numeric parse (PFloat r) = Inr (Some r)"
| "convert_numeric parse (PStr s) =
     (if s = [] then Inr None
      else (case parse s of
              Some x \<Rightarrow> Inr x
            | None \<Rightarrow> Inl (PyException ''ValueError'' ''Unable to parse string'')))"
| "convert_numeric parse (PDatetime t) = Inl (PyException ''TypeError'' ''Invalid object type'')"
| "convert_numeric parse (PObj n) = Inl (PyException ''TypeError'' ''Invalid object type'')"

fun is_bool :: "pyval \<Rightarrow> bool" where
  "is_bool (PBool _) = True"
| "is_bool _ = False"

fun the_bool :: "pyval \<Rightarrow> bool" where
  "the_bool (PBool b) = b"
| "the_bool _ = False"

text \<open>
  \<^verbatim>\<open>pd.to_numeric\<close> on the cells of an object or categorical series. Cells that are all
  booleans give a bool series; otherwise the result is a numeric series.
\<close>

definition to_numeric_values :: "(string \<Rightarrow> rat option option) \<Rightarrow> pyval list \<Rightarrow> exn + series" where
  "to_numeric_values parse vs =
     (if vs \<noteq> [] \<and> list_all is_bool vs then Inr (BoolS (map the_bool vs))
      else (case traverse (convert_numeric parse) vs of
              Inl e \<Rightarrow> Inl e
            | Inr xs \<Rightarrow> Inr (NumericS xs)))"

text \<open>\<^verbatim>\<open>except (ValueError, TypeError)\<close>.\<close>

fun is_ValueError_or_TypeError :: "exn \<Rightarrow> bool" where
  "is_ValueError_or_TypeError (PyException c m) = (c = ''ValueError'' \<or> c = ''TypeError'')"
| "is_ValueError_or_TypeError _ = False"

section \<open>Autocast and sanitize\<close>

text \<open>A cell that is null or the empty string: \<^verbatim>\<open>nulls | (series == "")\<close>.\<close>

definition null_or_empty :: "pyval \<Rightarrow> bool" where
  "null_or_empty v = (isna v \<or> v = PStr [])"

text \<open>\<^verbatim>\<open>series.astype(str)\<close> followed by \<^verbatim>\<open>series[nulls] = null\<close>.\<close>

definition astype_str :: "(pyval \<Rightarrow> string) \<Rightarrow> pyval \<Rightarrow> pyval list \<Rightarrow> pyval list" where
  "astype_str str null vs = map (\<lambda>v. if isna v then null else PStr (py_str str v)) vs"

text \<open>
  \<^verbatim>\<open>autocast_series_dtype(series)\<close>. The three branches are the source's: dtype object,
  a series with \<^verbatim>\<open>.cat\<close>, and the rest, where the source asserts a numeric or datetime
  dtype.
\<close>

definition autocast_series_dtype ::
  "(pyval \<Rightarrow> string) \<Rightarrow> (string \<Rightarrow> rat option option) \<Rightarrow> series \<Rightarrow> exn + series" where
  "autocast_series_dtype str parse series =
     (case series of
        ObjectS vs \<Rightarrow>
          if list_all null_or_empty vs then Inr series
          else (case to_numeric_values parse vs of
                  Inr numbers \<Rightarrow> Inr numbers
                | Inl e \<Rightarrow>
                    if is_ValueError_or_TypeError e
                    then (if list_ex (\<lambda>x. \<not> is_str x) (filter (\<lambda>v. \<not> isna v) vs)
                          then Inr (ObjectS (astype_str str PNone vs))
                          else Inr series)
                    else Inl e)
      | CategoryS cats codes \<Rightarrow>
          (case categorical_values cats codes of
             Inl e \<Rightarrow> Inl e
           | Inr vs \<Rightarrow>
               if list_all null_or_empty vs then Inr series
               else (case to_numeric_values parse vs of
                       Inr numbers \<Rightarrow> Inr numbers
                     | Inl e \<Rightarrow> if is_ValueError_or_TypeError e then Inr series else Inl e))
      | NumericS xs \<Rightarrow> Inr series
      | BoolS bs \<Rightarrow> Inr series
      | DatetimeS ts \<Rightarrow> Inr series
      | OtherS vs \<Rightarrow> Inl (PyException ''AssertionError'' []))"

text \<open>
  \<^verbatim>\<open>pd.api.types.infer_dtype(values, skipna=True) == "string"\<close>: some cell is not null
  and every such cell is a string.
\<close>

definition infer_dtype_is_string :: "pyval list \<Rightarrow> bool" where
  "infer_dtype_is_string vs =
     (filter (\<lambda>v. \<not> isna v) vs \<noteq> [] \<and> list_all is_str (filter (\<lambda>v. \<not> isna v) vs))"

text \<open>
  \<^verbatim>\<open>series.cat.codes[mapping.codes]\<close>: the codes are a series labelled by row number, and
  an array of integers selects by label. A label that is not a row raises \<^verbatim>\<open>KeyError\<close>.
\<close>

definition codes_getitem :: "int list \<Rightarrow> int \<Rightarrow> exn + int" where
  "codes_getitem codes m =
     (if 0 \<le> m \<and> m < int (length codes) then Inr (codes ! nat m)
      else Inl (PyException ''KeyError'' ''not in index''))"

text \<open>
  The branch of \<^verbatim>\<open>sanitize_series\<close> that maps categories which are not all strings to
  strings, line by line:
  \<^verbatim>\<open>mapping = pd.Categorical(categories.astype(str))\<close>,
  \<^verbatim>\<open>values = pd.Categorical(series.cat.codes[mapping.codes])\<close>,
  \<^verbatim>\<open>values.rename_categories(mapping.categories, inplace=True)\<close>, which raises
  \<^verbatim>\<open>ValueError\<close> unless it gets as many names as \<open>values\<close> has categories, and
  \<^verbatim>\<open>series = pd.Series(values)\<close>.
\<close>

definition categories_to_str :: "(pyval \<Rightarrow> string) \<Rightarrow> pyval list \<Rightarrow> int list \<Rightarrow> exn + series" where
  "categories_to_str str categories codes =
     (let mapping = factorize (map (py_str str) categories)
      in case traverse (codes_getitem codes) (snd mapping) of
           Inl e \<Rightarrow> Inl e
         | Inr picked \<Rightarrow>
             (let values = factorize picked
              in if length (fst mapping) \<noteq> length (fst values)
                 then Inl (PyException ''ValueError''
                        ''new categories need to have the same number of items as the old categories!'')
                 else Inr (CategoryS (ObjectIndex (map PStr (fst mapping))) (snd values))))"

text \<open>
  \<^verbatim>\<open>sanitize_series(series)\<close>. A categorical first loses its unused categories; then
  categories of a numeric dtype make the series numeric (\<^verbatim>\<open>pd.to_numeric\<close>), categories
  of another dtype than object, or not all strings, are mapped to strings, and categories
  that are strings are kept. Numeric and datetime series are returned as they are; any
  other series becomes strings, its nulls NaN.
\<close>

definition sanitize_series ::
  "(pyval \<Rightarrow> string) \<Rightarrow> (string \<Rightarrow> rat option option) \<Rightarrow> series \<Rightarrow> exn + series" where
  "sanitize_series str parse series =
     (case series of
        CategoryS cats0 codes0 \<Rightarrow>
          (case remove_unused_categories cats0 codes0 of
             Inl e \<Rightarrow> Inl e
           | Inr (categories, codes) \<Rightarrow>
               (case categories of
                  NumericIndex ns \<Rightarrow>
                    bind_exn (categorical_values categories codes) (to_numeric_values parse)
                | ObjectIndex vs \<Rightarrow>
                    if \<not> infer_dtype_is_string vs then categories_to_str str vs codes
                    else Inr (CategoryS categories codes)
                | OtherIndex vs \<Rightarrow> categories_to_str str vs codes))
      | NumericS xs \<Rightarrow> Inr series
      | BoolS bs \<Rightarrow> Inr series
      | DatetimeS ts \<Rightarrow> Inr series
      | ObjectS vs \<Rightarrow> Inr (ObjectS (astype_str str PNaN vs))
      | OtherS vs \<Rightarrow> Inr (ObjectS (astype_str str PNaN vs)))"

text \<open>
  \<^verbatim>\<open>autocast_series_dtype(sanitize_series(newcol))\<close>, as both formula modes call it.
\<close>

definition sanitize_then_autocast ::
  "(pyval \<Rightarrow> string) \<Rightarrow> (string \<Rightarrow> rat option option) \<Rightarrow> series \<Rightarrow> exn + series" where
  "sanitize_then_autocast str parse series =
     bind_exn (sanitize_series str parse series) (autocast_series_dtype str parse)"

text \<open>
  Two concrete stand-ins for the parameters, used in the examples only: a \<^verbatim>\<open>str\<close> that
  prints integers, booleans and \<^verbatim>\<open>None\<close> as Python does, and a parser of unsigned decimal
  integers and of "nan".
\<close>

fun str_example :: "pyval \<Rightarrow> string" where
  "str_example (PInt i) = (if i < 0 then ''-'' @ str_nat (nat (- i)) else str_nat (nat i))"
| "str_example (PBool b) = (if b then ''True'' else ''False'')"
| "str_example PNone = ''None''"
| "str_example PNaN = ''nan''"
| "str_example (PStr s) = s"
| "str_example _ = ''<object>''"

definition parse_example :: "string \<Rightarrow> rat option option" where
  "parse_example s =
     (if s = ''nan'' then Some None
      else if s \<noteq> [] \<and> list_all (\<lambda>c. c \<in> set ''0123456789'') s
      then Some (Some (of_nat (nat_of_str s))) else None)"

section \<open>Tables\<close>

text \<open>
  A pandas \<^verbatim>\<open>DataFrame\<close>: the length of its row index and its labelled columns, in
  order. Every column of a table has \<open>nrows\<close> cells, and the tables the module receives
  have no two columns of the same label.
\<close>

record table =
  nrows :: nat
  cols :: "(string \<times> series) list"

text \<open>
  The cells of a series as Python objects, as \<^verbatim>\<open>table.values\<close> holds them: a number of
  a numeric column is a float, and a null of a numeric, datetime or categorical column
  is NaN.
\<close>

fun series_values :: "series \<Rightarrow> pyval list" where
  "series_values (ObjectS vs) = vs"
| "series_values (CategoryS cats codes) =
     map (\<lambda>c. if 0 \<le> c \<and> c < int (length (index_values cats))
              then index_values cats ! nat c else PNaN) codes"
| "series_values (NumericS xs) = map (\<lambda>x. case x of None \<Rightarrow> PNaN | Some r \<Rightarrow> PFloat r) xs"
| "series_values (BoolS bs) = map PBool bs"
| "series_values (DatetimeS ts) = map (\<lambda>t. case t of None \<Rightarrow> PNaN | Some ns \<Rightarrow> PDatetime ns) ts"
| "series_values (OtherS vs) = vs"

definition cell :: "series \<Rightarrow> nat \<Rightarrow> pyval" where
  "cell s i = (if i < length (series_values s) then series_values s ! i else PNaN)"

text \<open>\<^verbatim>\<open>table.values\<close>: one list of cells per row.\<close>

definition table_values :: "table \<Rightarrow> pyval list list" where
  "table_values t = map (\<lambda>i. map (\<lambda>c. cell (snd c) i) (cols t)) [0..<nrows t]"

text \<open>
  A slice \<^verbatim>\<open>xs[a:b]\<close>, as Python and \<^verbatim>\<open>iloc\<close> read it: a negative bound counts from
  the end, and a bound outside the list is clamped to it.
\<close>

definition slice_bound :: "nat \<Rightarrow> int \<Rightarrow> nat" where
  "slice_bound n i = (if i < 0 then nat (int n + i) else min (nat i) n)"

definition py_slice :: "'a list \<Rightarrow> int \<Rightarrow> int \<Rightarrow> 'a list" where
  "py_slice xs a b =
     take (slice_bound (length xs) b - slice_bound (length xs) a)
       (drop (slice_bound (length xs) a) xs)"

text \<open>
  \<^verbatim>\<open>pd.Series(values)\<close> on a list of Python objects infers the dtype: an empty list
  gives float64; booleans only give bool; numbers, with \<^verbatim>\<open>None\<close> read as NaN, give a
  numeric series, unless an integer is outside both int64 and uint64 or the integers fit
  neither of them together; timestamps with nulls give datetime64; anything else stays a
  series of objects. The inference reads the list from left to right and checks the range
  of an integer only while it has met no \<^verbatim>\<open>None\<close>: after a \<^verbatim>\<open>None\<close> the numbers can
  only become floats. \<open>integers_fit_loop\<close> carries what the inference has seen: a
  \<^verbatim>\<open>None\<close>, an integer above int64, a negative integer.
\<close>

definition int64_min :: int where
  "int64_min = - (2 ^ 63)"

definition int64_max :: int where
  "int64_max = 2 ^ 63 - 1"

definition uint64_max :: int where
  "uint64_max = 2 ^ 64 - 1"

fun is_int :: "pyval \<Rightarrow> bool" where
  "is_int (PInt i) = True"
| "is_int _ = False"

fun the_int :: "pyval \<Rightarrow> int" where
  "the_int (PInt i) = i"
| "the_int _ = 0"

fun integers_fit_loop :: "bool \<Rightarrow> bool \<Rightarrow> bool \<Rightarrow> pyval list \<Rightarrow> bool" where
  "integers_fit_loop seen_null seen_uint seen_sint [] = True"
| "integers_fit_loop seen_null seen_uint seen_sint (v # vs) =
     (if v = PNone then integers_fit_loop True seen_uint seen_sint vs
      else if is_int v \<and> \<not> seen_null
      then (let uint = (seen_uint \<or> the_int v > int64_max);
                sint = (seen_sint \<or> the_int v < 0)
            in if (uint \<and> sint) \<or> the_int v > uint64_max \<or> the_int v < int64_min then False
               else integers_fit_loop seen_null uint sint vs)
      else integers_fit_loop seen_null seen_uint seen_sint vs)"

definition integers_fit :: "pyval list \<Rightarrow> bool" where
  "integers_fit vs = integers_fit_loop False False False vs"

fun is_number :: "pyval \<Rightarrow> bool" where
  "is_number (PInt _) = True"
| "is_number (PFloat _) = True"
| "is_number PNaN = True"
| "is_number _ = False"

fun number_of :: "pyval \<Rightarrow> rat option" where
  "number_of (PInt i) = Some (of_int i)"
| "number_of (PFloat r) = Some r"
| "number_of _ = None"

fun is_datetime :: "pyval \<Rightarrow> bool" where
  "is_datetime (PDatetime _) = True"
| "is_datetime _ = False"

fun datetime_of :: "pyval \<Rightarrow> int option" where
  "datetime_of (PDatetime ns) = Some ns"
| "datetime_of _ = None"

definition pd_Series :: "pyval list \<Rightarrow> series" where
  "pd_Series vs =
     (if vs = [] then NumericS []
      else if list_all is_bool vs then BoolS (map the_bool vs)
      else if list_all (\<lambda>v. is_number v \<or> v = PNone) vs \<and> list_ex is_number vs \<and>
          integers_fit vs
        then NumericS (map number_of vs)
      else if list_all (\<lambda>v. is_datetime v \<or> isna v) vs \<and> list_ex is_datetime vs
        then DatetimeS (map datetime_of vs)
      else ObjectS vs)"

section \<open>Dates as spreadsheet serials\<close>

text \<open>
  The day number of a date of the Gregorian calendar, 1970-01-01 being day 0: what
  \<^verbatim>\<open>np.datetime64("1900-01-01")\<close> holds. A \<^verbatim>\<open>datetime64[ns]\<close> counts nanoseconds.
\<close>

definition days_from_civil :: "int \<Rightarrow> int \<Rightarrow> int \<Rightarrow> int" where
  "days_from_civil y m d =
     (let y' = (if m \<le> 2 then y - 1 else y);
          era = y' div 400;
          yoe = y' - era * 400;
          doy = (153 * (if m > 2 then m - 3 else m + 9) + 2) div 5 + d - 1;
          doe = yoe * 365 + yoe div 4 - yoe div 100 + doy
      in era * 146097 + doe - 719468)"

definition one_day :: int where
  "one_day = 86400 * 1000000000"

definition excel_1900_min_date :: int where
  "excel_1900_min_date = days_from_civil 1900 1 1 * one_day"

definition excel_1900_zero_date :: int where
  "excel_1900_zero_date = days_from_civil 1899 12 30 * one_day"

text \<open>
  One cell of \<^verbatim>\<open>number_table\<close>: the table starts all NaN, and the assignment
  \<^verbatim>\<open>number_table[datetime_table >= excel_1900_min_date] = (datetime_table - excel_1900_zero_date) / one_day\<close>
  fills the cells whose instant passes the comparison (NaT does not). The rounding of the
  quotient to a float is not modelled.
\<close>

definition excel_serial :: "int option \<Rightarrow> rat option" where
  "excel_serial t =
     (case t of
        None \<Rightarrow> None
      | Some ns \<Rightarrow>
          if ns \<ge> excel_1900_min_date
          then Some (of_int (ns - excel_1900_zero_date) / of_int one_day)
          else None)"

fun is_datetime64 :: "series \<Rightarrow> bool" where
  "is_datetime64 (DatetimeS ts) = True"
| "is_datetime64 _ = False"

text \<open>
  \<^verbatim>\<open>datetime_table - excel_1900_zero_date\<close> is computed for every instant of the column
  (NaT apart) before the comparison selects cells, and its result is a timedelta of 64
  bits: pandas raises \<^verbatim>\<open>OverflowError\<close> when the difference of some instant does not fit.
  The zero date lies before 1970, so only an instant late enough can overflow.
\<close>

definition timedelta_overflow :: "int option \<Rightarrow> bool" where
  "timedelta_overflow t =
     (case t of None \<Rightarrow> False | Some ns \<Rightarrow> ns - excel_1900_zero_date > int64_max)"

definition overflow_error :: exn where
  "overflow_error = PyException ''OverflowError'' ''Overflow in int64 addition''"

fun number_column :: "series \<Rightarrow> exn + series" where
  "number_column (DatetimeS ts) =
     (if list_ex timedelta_overflow ts then Inl overflow_error
      else Inr (NumericS (map excel_serial ts)))"
| "number_column s = Inr (NumericS (replicate (series_len s) None))"

definition labelled_number_column :: "string \<times> series \<Rightarrow> exn + string \<times> series" where
  "labelled_number_column c =
     (case number_column (snd c) of Inl e \<Rightarrow> Inl e | Inr numbers \<Rightarrow> Inr (fst c, numbers))"

text \<open>
  \<^verbatim>\<open>_prepare_table_for_excel_formulas(table)\<close>. \<open>colnames\<close> are the labels of the
  datetime columns; \<^verbatim>\<open>table[colnames]\<close> selects columns by label,
  \<^verbatim>\<open>number_table\<close> has the same labels, and \<^verbatim>\<open>new_table[colnames] = number_table\<close>
  stores, under each of these labels, the column of \<^verbatim>\<open>number_table\<close> with that label.
\<close>

definition prepare_table_for_excel_formulas :: "table \<Rightarrow> exn + table" where
  "prepare_table_for_excel_formulas t =
     (let colnames = map fst (filter (\<lambda>c. is_datetime64 (snd c)) (cols t))
      in if colnames = [] then Inr t
         else (let datetime_table = filter (\<lambda>c. fst c \<in> set colnames) (cols t)
               in case traverse labelled_number_column datetime_table of
                    Inl e \<Rightarrow> Inl e
                  | Inr number_table \<Rightarrow>
                      Inr (t\<lparr>cols := map (\<lambda>c. case map_of number_table (fst c) of
                                               None \<Rightarrow> c
                                             | Some numbers \<Rightarrow> (fst c, numbers)) (cols t)\<rparr>)))"

text \<open>
  The numeric column that \<open>number_column\<close> gives for a series none of whose
  differences overflows.
\<close>

definition serial_column :: "series \<Rightarrow> series" where
  "serial_column s =
     (case s of DatetimeS ts \<Rightarrow> NumericS (map excel_serial ts)
      | _ \<Rightarrow> NumericS (replicate (series_len s) None))"

section \<open>Spreadsheet formulas\<close>

text \<open>
  The \<^verbatim>\<open>formulas\<close> library compiles the text of a formula into a callable with named
  inputs. Each input is a token of the formula with the object it resolved to: nothing
  (\<^verbatim>\<open>None\<close>), or a list of ranges. A range is a dict; the module reads its keys
  \<^verbatim>\<open>r1\<close> and \<^verbatim>\<open>r2\<close> (the first and last row, 1-based), \<^verbatim>\<open>n1\<close> and \<^verbatim>\<open>n2\<close> (the
  first and last column, 1-based) and \<^verbatim>\<open>ref\<close> (its text). The library holds \<^verbatim>\<open>r1\<close>
  and \<^verbatim>\<open>r2\<close> as strings, the decimal numerals of the rows as its grammar reads them
  (digits, no sign, no leading zero). The record keeps the row numbers: \<open>str_int\<close> gives
  the string the library holds, which is what the mode of all rows compares with "1",
  and \<^verbatim>\<open>int\<close> of that string, which the mode of one row takes, is the number again.
\<close>

record xl_range =
  rg_r1 :: int
  rg_r2 :: int
  rg_n1 :: int
  rg_n2 :: int
  rg_ref :: string

text \<open>
  An argument of the compiled formula is a list of cells or, after
  \<^verbatim>\<open>flatten_single_element_lists\<close>, the only cell of a list of one. The callable returns a
  numpy array or a plain object, or raises.
\<close>

datatype arg = Scalar pyval | Cells "pyval list"

datatype ret = NdArray "pyval list" | Plain pyval

record compiled =
  code_inputs :: "(string \<times> xl_range list option) list"
  code_call :: "arg list \<Rightarrow> exn + ret"

fun flatten_single_element_lists :: "pyval list \<Rightarrow> arg" where
  "flatten_single_element_lists [x] = Scalar x"
| "flatten_single_element_lists xs = Cells xs"

text \<open>\<^verbatim>\<open>ret.item()\<close> on a numpy array: its only element, else \<^verbatim>\<open>ValueError\<close>.\<close>

fun ndarray_item :: "pyval list \<Rightarrow> exn + pyval" where
  "ndarray_item [v] = Inr v"
| "ndarray_item vs =
     Inl (PyException ''ValueError'' ''can only convert an array of size 1 to a Python scalar'')"

text \<open>
  \<^verbatim>\<open>code(*args)\<close>: the callable takes one positional argument per input, and a call
  with more arguments than inputs raises \<^verbatim>\<open>TypeError\<close> before anything is evaluated.
\<close>

definition too_many_arguments :: exn where
  "too_many_arguments = PyException ''TypeError'' ''too many positional arguments''"

definition call_compiled :: "compiled \<Rightarrow> arg list \<Rightarrow> exn + ret" where
  "call_compiled code args =
     (if length args > length (code_inputs code) then Inl too_many_arguments
      else code_call code args)"

text \<open>
  \<^verbatim>\<open>eval_excel(code, args)\<close>: a \<^verbatim>\<open>DispatcherError\<close> whose cause is a
  \<^verbatim>\<open>NotImplementedError\<close> becomes a \<^verbatim>\<open>UserVisibleError\<close>; any other exception is raised
  again as it is.
\<close>

definition function_not_implemented :: "string \<Rightarrow> exn" where
  "function_not_implemented name =
     UserVisibleError (trans ''excel.functionNotImplemented''
       ''Function {name} not implemented'' [(''name'', name)])"

definition eval_excel :: "compiled \<Rightarrow> arg list \<Rightarrow> exn + pyval" where
  "eval_excel code args =
     (case call_compiled code args of
        Inl (DispatcherError msg name NotImplementedError) \<Rightarrow> Inl (function_not_implemented name)
      | Inl e \<Rightarrow> Inl e
      | Inr (NdArray vs) \<Rightarrow> ndarray_item vs
      | Inr (Plain v) \<Rightarrow> Inr v)"

text \<open>The messages of the range checks.\<close>

definition invalid_cell_range :: "string \<Rightarrow> exn" where
  "invalid_cell_range token =
     UserVisibleError (trans ''excel.one_row.invalidCellRange''
       ''Invalid cell range: {token}'' [(''token'', token)])"

definition cell_range_not_rectangular :: exn where
  "cell_range_not_rectangular =
     UserVisibleError (trans ''excel.one_row.cellRangeNotRectangular''
       ''Excel range must be a rectangular block of values'' [])"

definition one_row_bad_ref :: "string \<Rightarrow> exn" where
  "one_row_bad_ref ref =
     UserVisibleError (trans ''excel.one_row.badRef''
       ''Excel range \"{ref}\" is out of bounds'' [(''ref'', ref)])"

definition bad_cell_reference :: "string \<Rightarrow> exn" where
  "bad_cell_reference token =
     UserVisibleError (trans ''excel.badCellReference''
       ''Bad cell reference {token}'' [(''token'', token)])"

definition formula_first_row_reference :: exn where
  "formula_first_row_reference =
     UserVisibleError (trans ''excel.formulaFirstRowReference''
       ''Excel formulas can only reference the first row when applied to all rows'' [])"

definition all_rows_bad_column_ref :: "string \<Rightarrow> exn" where
  "all_rows_bad_column_ref ref =
     UserVisibleError (trans ''excel.all_rows.badColumnRef''
       ''Excel range \"{ref}\" is out of bounds'' [(''ref'', ref)])"

text \<open>
  One turn of the loop of \<^verbatim>\<open>eval_excel_one_row\<close> over \<^verbatim>\<open>code.inputs.items()\<close>: the
  argument built from one input, or the exception the turn raises.
  \<^verbatim>\<open>table.iloc[r1:r2, c1:c2].values.flat\<close> lists the cells of the slice row by row.
\<close>

definition one_row_arg :: "table \<Rightarrow> string \<times> xl_range list option \<Rightarrow> exn + arg" where
  "one_row_arg t input =
     (case snd input of
        None \<Rightarrow> Inl (invalid_cell_range (fst input))
      | Some ranges \<Rightarrow>
          if length ranges \<noteq> 1 then Inl cell_range_not_rectangular
          else (let range = ranges ! 0;
                    r1 = rg_r1 range - 1;
                    r2 = rg_r2 range;
                    c1 = rg_n1 range - 1;
                    c2 = rg_n2 range;
                    ncols = int (length (cols t))
                in if r1 < 0 \<or> c1 < 0 \<or> c2 > ncols \<or> r1 \<ge> r2 \<or> c1 \<ge> c2
                   then Inl (one_row_bad_ref (rg_ref range))
                   else Inr (flatten_single_element_lists
                          (concat (map (\<lambda>row. py_slice row c1 c2)
                             (py_slice (table_values t) r1 r2))))))"

text \<open>
  \<^verbatim>\<open>eval_excel_one_row(code, table)\<close>: the arguments of all inputs, in order, the first
  exception ending the loop; then the formula is evaluated once.
\<close>

definition eval_excel_one_row :: "compiled \<Rightarrow> table \<Rightarrow> exn + pyval" where
  "eval_excel_one_row code t =
     bind_exn (traverse (one_row_arg t) (code_inputs code)) (eval_excel code)"

text \<open>
  The first loop of \<^verbatim>\<open>eval_excel_all_rows\<close>: for every input, and for every range of
  the input, the checks and then \<^verbatim>\<open>col_idx.append(list(range(c1, c2)))\<close>. The first
  check is \<^verbatim>\<open>rng["r1"] != "1" or rng["r2"] != "1"\<close>, on the strings of the library.
\<close>

definition all_rows_range :: "table \<Rightarrow> xl_range \<Rightarrow> exn + nat list" where
  "all_rows_range t rng =
     (if str_int (rg_r1 rng) \<noteq> ''1'' \<or> str_int (rg_r2 rng) \<noteq> ''1''
      then Inl formula_first_row_reference
      else (let c1 = rg_n1 rng - 1; c2 = rg_n2 rng
            in if c1 < 0 \<or> c2 > int (length (cols t)) \<or> c1 \<ge> c2
               then Inl (all_rows_bad_column_ref (rg_ref rng))
               else Inr [nat c1..<nat c2]))"

definition all_rows_input :: "table \<Rightarrow> string \<times> xl_range list option \<Rightarrow> exn + nat list list" where
  "all_rows_input t input =
     (case snd input of
        None \<Rightarrow> Inl (bad_cell_reference (fst input))
      | Some ranges \<Rightarrow> traverse (all_rows_range t) ranges)"

definition all_rows_col_idx :: "compiled \<Rightarrow> table \<Rightarrow> exn + nat list list" where
  "all_rows_col_idx code t =
     bind_exn (traverse (all_rows_input t) (code_inputs code)) (\<lambda>per_input. Inr (concat per_input))"

text \<open>
  The second loop, over \<^verbatim>\<open>table.values\<close>: the arguments of one row are the cells at the
  column indices of each entry of \<^verbatim>\<open>col_idx\<close>.
\<close>

definition all_rows_row :: "compiled \<Rightarrow> nat list list \<Rightarrow> pyval list \<Rightarrow> exn + pyval" where
  "all_rows_row code col_idx row =
     eval_excel code (map (\<lambda>col. flatten_single_element_lists (map (\<lambda>idx. row ! idx) col)) col_idx)"

definition eval_excel_all_rows :: "compiled \<Rightarrow> table \<Rightarrow> exn + series" where
  "eval_excel_all_rows code t =
     bind_exn (all_rows_col_idx code t) (\<lambda>col_idx.
     bind_exn (traverse (all_rows_row code col_idx) (table_values t)) (\<lambda>newcol.
     Inr (pd_Series newcol)))"

section \<open>Parameter migration\<close>

text \<open>
  \<^verbatim>\<open>params\<close> is a dict from field names to JSON values. \<^verbatim>\<open>isinstance(x, int)\<close> holds of
  integers and of booleans (\<^verbatim>\<open>bool\<close> is a subclass of \<^verbatim>\<open>int\<close>).
\<close>

datatype param = ParamInt int | ParamBool bool | ParamStr string | ParamNull

type_synonym params_dict = "string \<rightharpoonup> param"

fun isinstance_int :: "param \<Rightarrow> bool" where
  "isinstance_int (ParamInt _) = True"
| "isinstance_int (ParamBool _) = True"
| "isinstance_int _ = False"

fun int_of_param :: "param \<Rightarrow> int" where
  "int_of_param (ParamInt i) = i"
| "int_of_param (ParamBool b) = (if b then 1 else 0)"
| "int_of_param _ = 0"

text \<open>
  \<^verbatim>\<open>xs[i]\<close> on a Python list: a negative index counts from the end, and an index outside
  the list raises \<^verbatim>\<open>IndexError\<close>.
\<close>

definition py_index :: "'a list \<Rightarrow> int \<Rightarrow> exn + 'a" where
  "py_index xs i =
     (if 0 \<le> i \<and> i < int (length xs) then Inr (xs ! nat i)
      else if i < 0 \<and> - int (length xs) \<le> i then Inr (xs ! nat (int (length xs) + i))
      else Inl (PyException ''IndexError'' ''list index out of range''))"

text \<open>\<^verbatim>\<open>d[k]\<close> on a dict: a missing key raises \<^verbatim>\<open>KeyError\<close>.\<close>

definition py_getitem :: "(string \<rightharpoonup> 'a) \<Rightarrow> string \<Rightarrow> exn + 'a" where
  "py_getitem d k = (case d k of None \<Rightarrow> Inl (PyException ''KeyError'' k) | Some v \<Rightarrow> Inr v)"

text \<open>
  \<^verbatim>\<open>return {**params, "syntax": ["excel", "python"][params["syntax"]]}\<close>
\<close>

definition migrate_params_v0_to_v1 :: "params_dict \<Rightarrow> exn + params_dict" where
  "migrate_params_v0_to_v1 params =
     bind_exn (py_getitem params ''syntax'') (\<lambda>v.
     bind_exn (py_index [''excel'', ''python''] (int_of_param v)) (\<lambda>s.
     Inr (params(''syntax'' \<mapsto> ParamStr s))))"

text \<open>
  \<^verbatim>\<open>if isinstance(params["syntax"], int): params = _migrate_params_v0_to_v1(params)\<close>
\<close>

definition migrate_params :: "params_dict \<Rightarrow> exn + params_dict" where
  "migrate_params params =
     bind_exn (py_getitem params ''syntax'') (\<lambda>v.
       if isinstance_int v then migrate_params_v0_to_v1 params else Inr params)"

section \<open>The name of the output column\<close>

text \<open>
  The loop \<^verbatim>\<open>while f"{out_column}{n}" in table.columns: n += 1\<close>, entered at \<open>n\<close>. It
  ends because the table has finitely many columns and the numerals are all different.
\<close>

function get_output_column_loop :: "string list \<Rightarrow> string \<Rightarrow> nat \<Rightarrow> nat" where
  "get_output_column_loop columns out_column n =
     (if out_column @ str_nat n \<in> set columns
      then get_output_column_loop columns out_column (Suc n) else n)"
  by pat_completeness auto
termination
proof (relation "measure (\<lambda>(columns, out_column, n).
    card {m. n \<le> m \<and> out_column @ str_nat m \<in> set columns})")
  show "wf (measure (\<lambda>(columns, out_column, n).
    card {m. n \<le> m \<and> out_column @ str_nat m \<in> set columns}))"
    by simp
next
  fix columns :: "string list" and out_column :: string and n :: nat
  assume hit: "out_column @ str_nat n \<in> set columns"
  let ?A = "{m. n \<le> m \<and> out_column @ str_nat m \<in> set columns}"
  let ?B = "{m. Suc n \<le> m \<and> out_column @ str_nat m \<in> set columns}"
  have fin: "finite ?A"
    by (rule finite_subset [OF _ finite_suffixes [of out_column columns]]) auto
  have "n \<in> ?A" and "n \<notin> ?B" and "?B \<subseteq> ?A" using hit by auto
  then have "?B \<subset> ?A" by blast
  then have "card ?B < card ?A" using fin by (rule psubset_card_mono [rotated])
  then show "((columns, out_column, Suc n), (columns, out_column, n))
    \<in> measure (\<lambda>(columns, out_column, n).
        card {m. n \<le> m \<and> out_column @ str_nat m \<in> set columns})"
    by simp
qed

declare get_output_column_loop.simps [simp del]

text \<open>
  \<^verbatim>\<open>_get_output_column(table, out_column)\<close>; \<open>columns\<close> are the labels of
  \<^verbatim>\<open>table.columns\<close>. Without a collision the suffix is the empty string.
\<close>

definition get_output_column :: "string list \<Rightarrow> string \<Rightarrow> string" where
  "get_output_column columns out_column0 =
     (let out_column = (if out_column0 = [] then ''result'' else out_column0)
      in if out_column \<in> set columns
         then out_column @ str_nat (get_output_column_loop columns out_column 0)
         else out_column @ [])"

section \<open>Expression mode: the names a formula sees\<close>

text \<open>
  \<^verbatim>\<open>x.replace(" ", "_")\<close> on a column name.
\<close>

definition replace_spaces :: "string \<Rightarrow> string" where
  "replace_spaces x = map (\<lambda>c. if c = CHR '' '' then CHR ''_'' else c) x"

text \<open>
  \<^verbatim>\<open>dict(zip(keys, vals))\<close>: the pairs are stored from left to right, a later pair
  replacing an earlier one with the same key; \<^verbatim>\<open>zip\<close> stops at the shorter list.
\<close>

definition dict_set :: "('k \<rightharpoonup> 'v) \<Rightarrow> 'k \<times> 'v \<Rightarrow> ('k \<rightharpoonup> 'v)" where
  "dict_set d kv = d(fst kv \<mapsto> snd kv)"

definition dict_zip :: "'k list \<Rightarrow> 'v list \<Rightarrow> ('k \<rightharpoonup> 'v)" where
  "dict_zip ks vs = foldl dict_set Map.empty (zip ks vs)"

text \<open>
  The local names of one row: \<^verbatim>\<open>dict(zip(colnames, row))\<close> with
  \<^verbatim>\<open>colnames = [x.replace(" ", "_") for x in table.columns]\<close>.
\<close>

definition row_locals :: "string list \<Rightarrow> pyval list \<Rightarrow> (string \<rightharpoonup> pyval)" where
  "row_locals columns row = dict_zip (map replace_spaces columns) row"

section \<open>The collaborators of the module\<close>

text \<open>
  What the module calls and does not define is a parameter of the model: Python's
  \<^verbatim>\<open>str\<close> on an object and on an exception, \<^verbatim>\<open>str.strip\<close> (which removes the
  whitespace of Unicode at both ends of a string), pandas' parser of numerals, the parser
  and compiler of spreadsheet formulas (\<^verbatim>\<open>Parser().ast(formula)[1].compile()\<close>), Python's
  \<^verbatim>\<open>compile\<close> and \<^verbatim>\<open>eval\<close>, and the assignment of a column to a table
  (\<^verbatim>\<open>table[out_column] = newcol\<close>). The theorems hold for every choice of them.
\<close>

datatype builtin = Enabled | Disabled exn

record 'code runtime =
  rt_str :: "pyval \<Rightarrow> string"
  rt_exn_str :: "exn \<Rightarrow> string"
  rt_strip :: "string \<Rightarrow> string"
  rt_parse :: "string \<Rightarrow> rat option option"
  rt_parser :: "string \<Rightarrow> exn + compiled"
  rt_compile :: "string \<Rightarrow> exn + 'code"
  rt_eval :: "(string \<Rightarrow> builtin) \<Rightarrow> 'code \<Rightarrow> (string \<rightharpoonup> pyval) \<Rightarrow> exn + pyval"
  rt_setitem :: "table \<Rightarrow> string \<Rightarrow> series \<Rightarrow> table"

section \<open>Expression mode: evaluation\<close>

text \<open>
  \<^verbatim>\<open>build_builtins_for_eval()\<close> replaces six builtins by a function that raises
  \<^verbatim>\<open>UserVisibleError\<close>; every other builtin is Python's own.
\<close>

definition to_disable :: "string list" where
  "to_disable = [''__import__'', ''breakpoint'', ''compile'', ''eval'', ''exec'', ''open'']"

definition disable_func :: "string \<Rightarrow> exn" where
  "disable_func name =
     UserVisibleError (trans ''python.disabledFunction'' ''{name} is disabled''
       [(''name'', ''builtins.'' @ name)])"

definition build_builtins_for_eval :: "string \<Rightarrow> builtin" where
  "build_builtins_for_eval name =
     (if name \<in> set to_disable then Disabled (disable_func name) else Enabled)"

text \<open>\<^verbatim>\<open>newcol[i] = v\<close> on a series of objects.\<close>

fun series_setitem :: "series \<Rightarrow> nat \<Rightarrow> pyval \<Rightarrow> series" where
  "series_setitem (ObjectS vs) i v = ObjectS (vs[i := v])"
| "series_setitem s i v = s"

text \<open>
  The loop \<^verbatim>\<open>for i, row in enumerate(table.values): newcol[i] = eval(code, globals, dict(zip(colnames, row)))\<close>,
  entered at row \<open>i\<close>: the first exception ends it.
\<close>

fun python_rows ::
  "('code \<Rightarrow> (string \<rightharpoonup> pyval) \<Rightarrow> exn + pyval) \<Rightarrow> 'code \<Rightarrow> string list \<Rightarrow> nat \<Rightarrow>
     pyval list list \<Rightarrow> series \<Rightarrow> exn + series" where
  "python_rows ev code columns i [] newcol = Inr newcol"
| "python_rows ev code columns i (row # rows) newcol =
     (case ev code (row_locals columns row) of
        Inl e \<Rightarrow> Inl e
      | Inr v \<Rightarrow> python_rows ev code columns (Suc i) rows (series_setitem newcol i v))"

text \<open>
  \<^verbatim>\<open>python_formula(table, formula)\<close>. \<^verbatim>\<open>newcol\<close> starts as
  \<^verbatim>\<open>pd.Series(list(itertools.repeat(None, len(table))))\<close>.
\<close>

definition python_formula :: "'code runtime \<Rightarrow> table \<Rightarrow> string \<Rightarrow> exn + series" where
  "python_formula rt t formula =
     bind_exn (rt_compile rt formula) (\<lambda>code.
     bind_exn (python_rows (rt_eval rt build_builtins_for_eval) code (map fst (cols t)) 0
                 (table_values t) (pd_Series (replicate (nrows t) PNone))) (\<lambda>newcol.
     sanitize_then_autocast (rt_str rt) (rt_parse rt) newcol))"

section \<open>Spreadsheet mode: the new column\<close>

definition invalid_formula :: "string \<Rightarrow> exn" where
  "invalid_formula error =
     UserVisibleError (trans ''excel.invalidFormula''
       ''Couldn't parse formula: {error}'' [(''error'', error)])"

text \<open>
  \<^verbatim>\<open>excel_formula(table, formula, all_rows)\<close>. \<^verbatim>\<open>except Exception\<close> around the parser
  catches every exception but those outside \<^verbatim>\<open>Exception\<close>. In the branch of one row the
  column is \<^verbatim>\<open>pd.Series([value] + [None] * (len(table) - 1))\<close>: a list times a number
  below 1 is the empty list, which is what \<open>replicate\<close> gives at \<open>nrows t - 1\<close> for a
  table without rows.
\<close>

definition excel_formula :: "'code runtime \<Rightarrow> table \<Rightarrow> string \<Rightarrow> bool \<Rightarrow> exn + series" where
  "excel_formula rt t formula all_rows =
     (case rt_parser rt formula of
        Inl e \<Rightarrow> if is_Exception e then Inl (invalid_formula (rt_exn_str rt e)) else Inl e
      | Inr code \<Rightarrow>
          if all_rows
          then bind_exn (eval_excel_all_rows code t) (sanitize_then_autocast (rt_str rt) (rt_parse rt))
          else bind_exn (eval_excel_one_row code t) (\<lambda>v.
                 Inr (pd_Series (v # replicate (nrows t - 1) PNone))))"

section \<open>Render\<close>

text \<open>The parameters of the module, after migration.\<close>

record params =
  p_syntax :: string
  p_formula_excel :: string
  p_formula_python :: string
  p_all_rows :: bool
  p_out_column :: string

text \<open>
  What \<^verbatim>\<open>render\<close> returns: \<^verbatim>\<open>None\<close>, a table, the message of a
  \<^verbatim>\<open>UserVisibleError\<close>, or the text of another exception. An exception that \<^verbatim>\<open>render\<close>
  does not catch is the left summand of the result.
\<close>

datatype rendered = RNone | RTable table | RMessage i18n_message | RText string

text \<open>
  \<^verbatim>\<open>render(table, params)\<close>. The spreadsheet branch prepares the table before it looks
  at the formula, outside its \<^verbatim>\<open>try\<close>, and catches \<^verbatim>\<open>UserVisibleError\<close> only; the
  expression branch catches \<^verbatim>\<open>UserVisibleError\<close> and then \<^verbatim>\<open>Exception\<close>.
\<close>

definition attach :: "'code runtime \<Rightarrow> table \<Rightarrow> params \<Rightarrow> series \<Rightarrow> rendered" where
  "attach rt t ps newcol =
     RTable (rt_setitem rt t (get_output_column (map fst (cols t)) (p_out_column ps)) newcol)"

definition render :: "'code runtime \<Rightarrow> table option \<Rightarrow> params \<Rightarrow> exn + rendered" where
  "render rt table_opt ps =
     (case table_opt of
        None \<Rightarrow> Inr RNone
      | Some t \<Rightarrow>
          if p_syntax ps = ''excel''
          then (case prepare_table_for_excel_formulas t of
                  Inl e \<Rightarrow> Inl e
                | Inr input_table \<Rightarrow>
                    (let formula = p_formula_excel ps
                     in if rt_strip rt formula = [] then Inr (RTable t)
                        else (case excel_formula rt input_table formula (p_all_rows ps) of
                                Inl (UserVisibleError m) \<Rightarrow> Inr (RMessage m)
                              | Inl e \<Rightarrow> Inl e
                              | Inr newcol \<Rightarrow> Inr (attach rt t ps newcol))))
          else (let formula = rt_strip rt (p_formula_python ps)
                in if formula = [] then Inr (RTable t)
                   else (case python_formula rt t formula of
                           Inl (UserVisibleError m) \<Rightarrow> Inr (RMessage m)
                         | Inl e \<Rightarrow> if is_Exception e then Inr (RText (rt_exn_str rt e)) else Inl e
                         | Inr newcol \<Rightarrow> Inr (attach rt t ps newcol))))"

section \<open>The canonical columns of the specification\<close>

text \<open>
  The data model of the specification (its section 3), in its words: a column is Numeric,
  Datetime, Categorical (unique string labels and one label index per row) or String;
  String and Categorical columns never contain a payload that is neither a string nor
  null, and Categorical columns never contain unused labels. Numeric is a column of
  numbers: a column of dtype bool is none of the four.
\<close>

definition canonical_column :: "series \<Rightarrow> bool" where
  "canonical_column s =
     (case s of
        NumericS xs \<Rightarrow> True
      | BoolS bs \<Rightarrow> False
      | DatetimeS ts \<Rightarrow> True
      | ObjectS vs \<Rightarrow> list_all (\<lambda>v. isna v \<or> is_str v) vs
      | CategoryS cats codes \<Rightarrow>
          (case cats of
             ObjectIndex labels \<Rightarrow>
               list_all is_str labels \<and> distinct labels \<and>
               list_all (code_ok (length labels)) codes \<and>
               list_all (\<lambda>k. int k \<in> set codes) [0..<length labels]
           | NumericIndex ns \<Rightarrow> False
           | OtherIndex vs \<Rightarrow> False)
      | OtherS vs \<Rightarrow> False)"

section \<open>Examples\<close>

text \<open>
  Tables, ranges and compiled formulas used as concrete inputs below. \<open>xl_sum\<close> adds
  the numbers among its arguments, as the spreadsheet function SUM does; \<open>xl_is_one\<close>
  compares its only argument with 1, as the formula \<^verbatim>\<open>=A1=1\<close> does.
\<close>

fun arg_cells :: "arg \<Rightarrow> pyval list" where
  "arg_cells (Scalar v) = [v]"
| "arg_cells (Cells vs) = vs"

definition xl_sum :: "arg list \<Rightarrow> exn + ret" where
  "xl_sum args =
     Inr (Plain (PFloat (sum_list (map (\<lambda>v. case number_of v of None \<Rightarrow> 0 | Some r \<Rightarrow> r)
       (concat (map arg_cells args))))))"

definition xl_is_one :: "arg list \<Rightarrow> exn + ret" where
  "xl_is_one args = Inr (Plain (PBool (args = [Scalar (PFloat 1)])))"

definition cell_range :: "int \<Rightarrow> int \<Rightarrow> int \<Rightarrow> int \<Rightarrow> string \<Rightarrow> xl_range" where
  "cell_range r1 r2 n1 n2 ref = \<lparr>rg_r1 = r1, rg_r2 = r2, rg_n1 = n1, rg_n2 = n2, rg_ref = ref\<rparr>"

definition table_A :: table where
  "table_A = \<lparr>nrows = 2, cols = [(''A'', NumericS [Some 1, Some 2])]\<rparr>"

definition table_AB :: table where
  "table_AB = \<lparr>nrows = 1, cols = [(''A'', NumericS [Some 1]), (''B'', NumericS [Some 2])]\<rparr>"

definition table_no_rows :: table where
  "table_no_rows = \<lparr>nrows = 0, cols = [(''A'', NumericS [])]\<rparr>"

text \<open>A formula whose only input resolves to the two ranges A1 and B1.\<close>

definition code_union :: compiled where
  "code_union =
     \<lparr>code_inputs = [(''A1,B1'', Some [cell_range 1 1 1 1 ''A1'', cell_range 1 1 2 2 ''B1''])],
      code_call = xl_sum\<rparr>"

text \<open>
  The inputs of formulas of the module's tests: \<^verbatim>\<open>=A2*2\<close> (a row other than the first),
  \<^verbatim>\<open>=A*2\<close> (a token that resolves to nothing), \<^verbatim>\<open>=SUM(A1:B1)\<close> (two columns) and
  \<^verbatim>\<open>=DATEX(2019, 6, A1)\<close> (a function that is not implemented).
\<close>

definition code_A2 :: compiled where
  "code_A2 = \<lparr>code_inputs = [(''A2'', Some [cell_range 2 2 1 1 ''A2''])], code_call = xl_sum\<rparr>"

definition code_A :: compiled where
  "code_A = \<lparr>code_inputs = [(''A'', None)], code_call = xl_sum\<rparr>"

definition code_A1B1 :: compiled where
  "code_A1B1 =
     \<lparr>code_inputs = [(''A1:B1'', Some [cell_range 1 1 1 2 ''A1:B1''])], code_call = xl_sum\<rparr>"

definition code_datex :: compiled where
  "code_datex =
     \<lparr>code_inputs = [(''A1'', Some [cell_range 1 1 1 1 ''A1''])],
      code_call = (\<lambda>args. Inl (DispatcherError ''Failed DISPATCHING'' ''DATEX'' NotImplementedError))\<rparr>"

text \<open>\<^verbatim>\<open>=A1=1\<close>, and a formula without inputs, \<^verbatim>\<open>=1+1\<close>.\<close>

definition code_is_one :: compiled where
  "code_is_one = \<lparr>code_inputs = [(''A1'', Some [cell_range 1 1 1 1 ''A1''])], code_call = xl_is_one\<rparr>"

definition code_two :: compiled where
  "code_two = \<lparr>code_inputs = [], code_call = (\<lambda>args. Inr (Plain (PInt 2)))\<rparr>"

text \<open>
  Collaborators for the examples: a parser that knows the formulas above and refuses any
  other text, an expression compiler that accepts any text, an evaluator that knows the
  expressions \<^verbatim>\<open>open()\<close>, which calls a disabled builtin, and \<^verbatim>\<open>exit()\<close>, which calls
  a builtin that raises \<^verbatim>\<open>SystemExit\<close>, and reads any other expression as a name, and a
  \<^verbatim>\<open>strip\<close> that knows the whitespace of ASCII.
\<close>

definition parser_example :: "string \<Rightarrow> exn + compiled" where
  "parser_example formula =
     (if formula = ''=A1=1'' then Inr code_is_one
      else if formula = ''=1+1'' then Inr code_two
      else if formula = ''=SUM((A1,B1))'' then Inr code_union
      else if formula = ''=A2*2'' then Inr code_A2
      else if formula = ''=A*2'' then Inr code_A
      else if formula = ''=SUM(A1:B1)'' then Inr code_A1B1
      else if formula = ''=DATEX(2019, 6, A1)'' then Inr code_datex
      else Inl (PyException ''FormulaError'' ''Not a valid formula''))"

definition eval_example :: "(string \<Rightarrow> builtin) \<Rightarrow> string \<Rightarrow> (string \<rightharpoonup> pyval) \<Rightarrow> exn + pyval" where
  "eval_example builtins code locals =
     (if code = ''open()''
      then (case builtins ''open'' of Disabled e \<Rightarrow> Inl e | Enabled \<Rightarrow> Inr (PObj 0))
      else if code = ''exit()''
      then (case builtins ''exit'' of
              Disabled e \<Rightarrow> Inl e
            | Enabled \<Rightarrow> Inl (PyBaseException ''SystemExit''))
      else (case locals code of
              Some v \<Rightarrow> Inr v
            | None \<Rightarrow> Inl (PyException ''NameError'' (''name '' @ code @ '' is not defined''))))"

definition setitem_example :: "table \<Rightarrow> string \<Rightarrow> series \<Rightarrow> table" where
  "setitem_example t name s = t\<lparr>cols := cols t @ [(name, s)]\<rparr>"

definition exn_str_example :: "exn \<Rightarrow> string" where
  "exn_str_example e = (case e of PyException c m \<Rightarrow> m | _ \<Rightarrow> [])"

definition is_space :: "char \<Rightarrow> bool" where
  "is_space c = (c \<in> set [CHR '' '', CHR 0x09, CHR 0x0A, CHR 0x0B, CHR 0x0C, CHR 0x0D])"

definition strip_example :: "string \<Rightarrow> string" where
  "strip_example s = rev (dropWhile is_space (rev (dropWhile is_space s)))"

definition runtime_example :: "string runtime" where
  "runtime_example =
     \<lparr>rt_str = str_example, rt_exn_str = exn_str_example, rt_strip = strip_example,
      rt_parse = parse_example, rt_parser = parser_example, rt_compile = Inr,
      rt_eval = eval_example, rt_setitem = setitem_example\<rparr>"

text \<open>
  The parameters of a call in each mode, a compiler of expressions that refuses every
  text, and a table whose only cell is the instant 2200-01-01T00:00:00, which a
  \<^verbatim>\<open>datetime64[ns]\<close> holds (its range ends in 2262).
\<close>

definition excel_params :: "string \<Rightarrow> bool \<Rightarrow> params" where
  "excel_params formula all_rows =
     \<lparr>p_syntax = ''excel'', p_formula_excel = formula, p_formula_python = [],
      p_all_rows = all_rows, p_out_column = ''X''\<rparr>"




definition table_2200 :: table where
  "table_2200 = \<lparr>nrows = 1, cols = [(''A'', DatetimeS [Some (days_from_civil 2200 1 1 * one_day)])]\<rparr>"

section \<open>Properties: sanitize and autocast\<close>

lemma index_of_less: "x \<in> set xs \<Longrightarrow> index_of xs x < length xs"
  unfolding index_of_def by (induction xs) auto

lemma nth_index_of: "x \<in> set xs \<Longrightarrow> xs ! index_of xs x = x"
  unfolding index_of_def
  by (induction xs) auto

lemma index_of_nth: "distinct xs \<Longrightarrow> j < length xs \<Longrightarrow> index_of xs (xs ! j) = j"
  unfolding index_of_def
proof (induction xs arbitrary: j)
  case Nil
  then show ?case by simp
next
  case (Cons a xs)
  then show ?case by (cases j) auto
qed

lemma index_of_upt: "0 \<le> c \<Longrightarrow> c < int k \<Longrightarrow> index_of (map int [0..<k]) c = nat c"
proof -
  assume c: "0 \<le> c" "c < int k"
  have "index_of (map int [0..<k]) (map int [0..<k] ! nat c) = nat c"
    using c by (intro index_of_nth) (auto simp: distinct_map)
  then show ?thesis using c by simp
qed

lemma sort_remdups_dense:
  assumes "set cs = int ` {0..<k}"
  shows "sort (remdups cs) = map int [0..<k]"
proof (rule sorted_distinct_set_unique)
  show "sorted (sort (remdups cs))" by simp
  show "distinct (sort (remdups cs))" by simp
  show "sorted (map int [0..<k])" by (simp add: sorted_map)
  show "distinct (map int [0..<k])" by (simp add: distinct_map)
  show "set (sort (remdups cs)) = set (map int [0..<k])" using assms by simp
qed

text \<open>A categorical all of whose categories are in use, with codes in range.\<close>

lemma remove_unused_categories_dense:
  assumes valid: "list_all (code_ok (length (index_values cats))) codes"
    and dense: "set (filter (\<lambda>c. c \<noteq> - 1) codes) = int ` {0..<length (index_values cats)}"
  shows "remove_unused_categories cats codes = Inr (cats, codes)"
proof -
  let ?k = "length (index_values cats)"
  have idx: "sort (remdups (filter (\<lambda>c. c \<noteq> - 1) codes)) = map int [0..<?k]"
    using dense by (rule sort_remdups_dense)
  have take: "index_take (map nat (map int [0..<?k])) cats = cats"
    by (cases cats) (simp_all add: map_nth comp_def)
  have "(if c = - 1 then - 1 else int (index_of (map int [0..<?k]) c)) = c" if "c \<in> set codes" for c
  proof (cases "c = - 1")
    case True
    then show ?thesis by simp
  next
    case False
    from valid that have "code_ok ?k c" by (simp add: list_all_iff)
    with False have "0 \<le> c" "c < int ?k" by (auto simp: code_ok_def)
    then show ?thesis using False by (simp add: index_of_upt)
  qed
  then have "map (\<lambda>c. if c = - 1 then - 1 else int (index_of (map int [0..<?k]) c)) codes = codes"
    by (simp add: map_idI)
  with valid idx take show ?thesis
    by (simp add: remove_unused_categories_def Let_def)
qed


lemma index_of_image: "distinct xs \<Longrightarrow> index_of xs ` set xs = {0..<length xs}"
proof (intro equalityI subsetI)
  fix j assume "j \<in> index_of xs ` set xs"
  then show "j \<in> {0..<length xs}" by (auto simp: index_of_less)
next
  fix j assume d: "distinct xs" and "j \<in> {0..<length xs}"
  then have "j < length xs" by simp
  with d have "index_of xs (xs ! j) = j" by (rule index_of_nth)
  moreover have "xs ! j \<in> set xs" using \<open>j < length xs\<close> by simp
  ultimately show "j \<in> index_of xs ` set xs" by (metis imageI)
qed

lemma length_index_take: "length (index_values (index_take ps cats)) = length ps"
  by (cases cats) simp_all

lemma remove_unused_categories_result:
  assumes "remove_unused_categories cats0 codes0 = Inr (cats, codes)"
  shows "list_all (code_ok (length (index_values cats))) codes"
    and "set (filter (\<lambda>c. c \<noteq> - 1) codes) = int ` {0..<length (index_values cats)}"
proof -
  define idx where "idx = sort (remdups (filter (\<lambda>c. c \<noteq> - 1) codes0))"
  from assms have cats: "cats = index_take (map nat idx) cats0"
    and codes: "codes = map (\<lambda>c. if c = - 1 then - 1 else int (index_of idx c)) codes0"
    by (auto simp: remove_unused_categories_def Let_def idx_def split: if_splits)
  have len: "length (index_values cats) = length idx"
    by (simp add: cats length_index_take)
  have d: "distinct idx" and s: "set idx = {c \<in> set codes0. c \<noteq> - 1}"
    by (auto simp: idx_def)
  show "list_all (code_ok (length (index_values cats))) codes"
    unfolding len codes list_all_iff
  proof (intro ballI)
    fix c' assume "c' \<in> set (map (\<lambda>c. if c = - 1 then - 1 else int (index_of idx c)) codes0)"
    then obtain c where c: "c \<in> set codes0" "c' = (if c = - 1 then - 1 else int (index_of idx c))"
      by auto
    show "code_ok (length idx) c'"
    proof (cases "c = - 1")
      case True
      with c show ?thesis by (simp add: code_ok_def)
    next
      case False
      with c s have "c \<in> set idx" by simp
      then have "index_of idx c < length idx" by (rule index_of_less)
      with False c show ?thesis by (simp add: code_ok_def)
    qed
  qed
  have "set (filter (\<lambda>c. c \<noteq> - 1) codes) = (\<lambda>c. int (index_of idx c)) ` set idx"
    unfolding codes s by (auto simp: image_iff)
  also have "\<dots> = int ` (index_of idx ` set idx)" by (simp add: image_image)
  also have "\<dots> = int ` {0..<length idx}" using d by (simp add: index_of_image)
  finally show "set (filter (\<lambda>c. c \<noteq> - 1) codes) = int ` {0..<length (index_values cats)}"
    by (simp add: len)
qed

lemma factorize_result:
  fixes vs :: "('a::linorder) list"
  assumes "factorize vs = (cats, codes)"
  shows "list_all (code_ok (length cats)) codes"
    and "set (filter (\<lambda>c. c \<noteq> - 1) codes) = int ` {0..<length cats}"
    and "cats = [] \<longleftrightarrow> vs = []" and "length codes = length vs"
proof -
  from assms have cats: "cats = sort (remdups vs)"
    and codes: "codes = map (\<lambda>v. int (index_of cats v)) vs"
    by (auto simp: factorize_def Let_def)
  have d: "distinct cats" and s: "set cats = set vs" by (simp_all add: cats)
  show "list_all (code_ok (length cats)) codes"
    unfolding codes list_all_iff using s by (auto simp: code_ok_def index_of_less)
  have "filter (\<lambda>c. c \<noteq> - 1) codes = codes"
    unfolding codes by (auto simp: filter_id_conv)
  then have "set (filter (\<lambda>c. c \<noteq> - 1) codes) = (\<lambda>v. int (index_of cats v)) ` set cats"
    by (simp add: codes s)
  also have "\<dots> = int ` (index_of cats ` set cats)" by (simp add: image_image)
  also have "\<dots> = int ` {0..<length cats}" using d by (simp add: index_of_image)
  finally show "set (filter (\<lambda>c. c \<noteq> - 1) codes) = int ` {0..<length cats}" .
  show "cats = [] \<longleftrightarrow> vs = []" using s by (metis set_empty)
  show "length codes = length vs" by (simp add: codes)
qed


lemma to_numeric_values_result:
  "to_numeric_values parse vs = Inr y \<Longrightarrow> (\<exists>xs. y = NumericS xs) \<or> (\<exists>bs. y = BoolS bs)"
  by (auto simp: to_numeric_values_def split: if_splits sum.splits)

lemma astype_str_idem: "astype_str str PNaN (astype_str str PNaN vs) = astype_str str PNaN vs"
  by (simp add: astype_str_def py_str_def)

lemma astype_str_all_str:
  "list_ex (\<lambda>x. \<not> is_str x) (filter (\<lambda>v. \<not> isna v) (astype_str str PNaN vs)) = False"
  by (induction vs) (simp_all add: astype_str_def)

lemma categories_to_str_fixed:
  assumes "categories_to_str str categories codes = Inr s"
  shows "sanitize_series str parse s = Inr s"
proof -
  obtain mcats mcodes where m: "factorize (map (py_str str) categories) = (mcats, mcodes)"
    by (cases "factorize (map (py_str str) categories)")
  from assms m obtain picked where p: "traverse (codes_getitem codes) mcodes = Inr picked"
    by (auto simp: categories_to_str_def Let_def split: sum.splits)
  obtain vcats vcodes where v: "factorize picked = (vcats, vcodes)"
    by (cases "factorize picked")
  from assms m p v have len: "length mcats = length vcats"
    and s: "s = CategoryS (ObjectIndex (map PStr mcats)) vcodes"
    by (auto simp: categories_to_str_def Let_def split: if_splits)
  note fr = factorize_result [OF v]
  have keep: "remove_unused_categories (ObjectIndex (map PStr mcats)) vcodes =
      Inr (ObjectIndex (map PStr mcats), vcodes)"
    using fr(1,2) len by (intro remove_unused_categories_dense) simp_all
  show ?thesis
  proof (cases "mcats = []")
    case True
    with len have "vcats = []" by simp
    with fr(3,4) have "picked = []" "vcodes = []" by simp_all
    with True s show ?thesis
      by (simp add: sanitize_series_def remove_unused_categories_def infer_dtype_is_string_def
          categories_to_str_def factorize_def)
  next
    case False
    have "filter (\<lambda>v. \<not> isna v) (map PStr mcats) = map PStr mcats"
      by (induction mcats) simp_all
    moreover have "list_all is_str (map PStr mcats)"
      by (induction mcats) simp_all
    ultimately have "infer_dtype_is_string (map PStr mcats)"
      using False by (simp add: infer_dtype_is_string_def)
    with keep s show ?thesis by (simp add: sanitize_series_def)
  qed
qed

lemma sanitize_series_idem:
  assumes "sanitize_series str parse x = Inr s"
  shows "sanitize_series str parse s = Inr s"
proof (cases x)
  case (ObjectS vs)
  with assms show ?thesis by (auto simp: sanitize_series_def astype_str_idem)
next
  case (CategoryS cats0 codes0)
  with assms obtain cats codes where r: "remove_unused_categories cats0 codes0 = Inr (cats, codes)"
    by (auto simp: sanitize_series_def split: sum.splits)
  note rr = remove_unused_categories_result [OF r]
  have keep: "remove_unused_categories cats codes = Inr (cats, codes)"
    using rr by (rule remove_unused_categories_dense)
  show ?thesis
  proof (cases cats)
    case (NumericIndex ns)
    with assms CategoryS r obtain vs where "to_numeric_values parse vs = Inr s"
      by (auto simp: sanitize_series_def bind_exn_def split: sum.splits)
    then show ?thesis
      by (auto dest!: to_numeric_values_result simp: sanitize_series_def)
  next
    case (ObjectIndex vs)
    show ?thesis
    proof (cases "infer_dtype_is_string vs")
      case True
      with assms CategoryS r ObjectIndex have "s = CategoryS (ObjectIndex vs) codes"
        by (simp add: sanitize_series_def)
      with keep True ObjectIndex show ?thesis by (simp add: sanitize_series_def)
    next
      case False
      with assms CategoryS r ObjectIndex have "categories_to_str str vs codes = Inr s"
        by (simp add: sanitize_series_def)
      then show ?thesis by (rule categories_to_str_fixed)
    qed
  next
    case (OtherIndex vs)
    with assms CategoryS r have "categories_to_str str vs codes = Inr s"
      by (simp add: sanitize_series_def)
    then show ?thesis by (rule categories_to_str_fixed)
  qed
next
  case (NumericS xs)
  with assms show ?thesis by (auto simp: sanitize_series_def)
next
  case (BoolS bs)
  with assms show ?thesis by (auto simp: sanitize_series_def)
next
  case (DatetimeS ts)
  with assms show ?thesis by (auto simp: sanitize_series_def)
next
  case (OtherS vs)
  with assms show ?thesis by (auto simp: sanitize_series_def astype_str_idem)
qed

lemma sanitize_series_no_other:
  "sanitize_series str parse x = Inr s \<Longrightarrow> s \<noteq> OtherS vs"
  by (auto simp: sanitize_series_def categories_to_str_def Let_def bind_exn_def
      dest!: to_numeric_values_result split: series.splits sum.splits index.splits if_splits prod.splits)

lemma sanitize_series_object:
  "sanitize_series str parse x = Inr (ObjectS ws) \<Longrightarrow> \<exists>vs. ws = astype_str str PNaN vs"
  by (auto simp: sanitize_series_def categories_to_str_def Let_def bind_exn_def
      dest!: to_numeric_values_result split: series.splits sum.splits index.splits if_splits prod.splits)

lemma autocast_after_sanitize:
  assumes "sanitize_series str parse x = Inr s" and "autocast_series_dtype str parse s = Inr y"
  shows "y = s \<or> (\<exists>xs. y = NumericS xs) \<or> (\<exists>bs. y = BoolS bs)"
proof (cases s)
  case (ObjectS ws)
  with assms(1) obtain vs where "ws = astype_str str PNaN vs"
    by (auto dest: sanitize_series_object)
  with assms(2) ObjectS show ?thesis
    by (auto simp: autocast_series_dtype_def astype_str_all_str
        dest!: to_numeric_values_result split: if_splits sum.splits)
next
  case (CategoryS cats codes)
  with assms(2) show ?thesis
    by (auto simp: autocast_series_dtype_def
        dest!: to_numeric_values_result split: if_splits sum.splits)
next
  case (OtherS vs)
  with assms(1) show ?thesis by (auto dest: sanitize_series_no_other)
qed (use assms(2) in \<open>auto simp: autocast_series_dtype_def\<close>)

lemma sanitize_then_autocast_fixed:
  assumes "sanitize_then_autocast str parse x = Inr y"
  shows "sanitize_then_autocast str parse y = Inr y"
proof -
  from assms obtain s where s: "sanitize_series str parse x = Inr s"
    and y: "autocast_series_dtype str parse s = Inr y"
    by (auto simp: sanitize_then_autocast_def bind_exn_def split: sum.splits)
  from autocast_after_sanitize [OF s y] show ?thesis
  proof (elim disjE exE)
    assume "y = s"
    with sanitize_series_idem [OF s] y show ?thesis
      by (simp add: sanitize_then_autocast_def)
  next
    fix xs assume "y = NumericS xs"
    then show ?thesis
      by (simp add: sanitize_then_autocast_def sanitize_series_def autocast_series_dtype_def)
  next
    fix bs assume "y = BoolS bs"
    then show ?thesis
      by (simp add: sanitize_then_autocast_def sanitize_series_def autocast_series_dtype_def)
  qed
qed

lemma traverse_convert_numeric_floats:
  "traverse (convert_numeric parse) (map (\<lambda>c. if c = - 1 then PNaN else PFloat (f c)) codes) =
     Inr (map (\<lambda>c. if c = - 1 then None else Some (f c)) codes)"
  by (induction codes) simp_all

lemma not_all_bool_floats:
  "codes \<noteq> [] \<Longrightarrow> \<not> list_all is_bool (map (\<lambda>c. if c = - 1 then PNaN else PFloat (f c)) codes)"
  by (cases codes) simp_all

lemma to_numeric_values_floats:
  "to_numeric_values parse (map (\<lambda>c. if c = - 1 then PNaN else PFloat (f c)) codes) =
     Inr (NumericS (map (\<lambda>c. if c = - 1 then None else Some (f c)) codes))"
  by (cases "codes = []")
     (simp_all add: to_numeric_values_def traverse_convert_numeric_floats not_all_bool_floats
       del: list.map)

text \<open>
  Claim C3, as the code has it. \<^verbatim>\<open>sanitize_series\<close> makes a categorical numeric when its
  categories have a numeric dtype, that is when the labels are numbers: every row gets the
  number of its code, a null row NaN. It does not parse labels: a categorical whose labels
  left after pruning are strings is returned categorical (pruned), also when every label
  would parse as a number. Turning such a column into numbers is the work of
  \<^verbatim>\<open>autocast_series_dtype\<close>.
\<close>

theorem sanitize_series_numeric_categories:
  "(list_all (code_ok (length ns)) codes \<longrightarrow>
      sanitize_series str parse (CategoryS (NumericIndex ns) codes) =
        Inr (NumericS (map (\<lambda>c. if c = - 1 then None else Some (ns ! nat c)) codes))) \<and>
   (remove_unused_categories (ObjectIndex vs) codes = Inr (ObjectIndex labels, codes') \<and>
    infer_dtype_is_string labels \<longrightarrow>
      sanitize_series str parse (CategoryS (ObjectIndex vs) codes) =
        Inr (CategoryS (ObjectIndex labels) codes'))"
proof (intro conjI impI)
  assume valid: "list_all (code_ok (length ns)) codes"
  define idx where "idx = sort (remdups (filter (\<lambda>c. c \<noteq> - 1) codes))"
  define cats where "cats = NumericIndex (map (\<lambda>p. ns ! p) (map nat idx))"
  define codes1 where "codes1 = map (\<lambda>c. if c = - 1 then - 1 else int (index_of idx c)) codes"
  have r: "remove_unused_categories (NumericIndex ns) codes = Inr (cats, codes1)"
    using valid by (simp add: remove_unused_categories_def Let_def idx_def cats_def codes1_def)
  note rr = remove_unused_categories_result [OF r]
  have cell: "(if c1 = - 1 then PNaN else index_values cats ! nat c1) =
      (if c = - 1 then PNaN else PFloat (ns ! nat c))"
    if "c \<in> set codes" and "c1 = (if c = - 1 then - 1 else int (index_of idx c))" for c c1
  proof (cases "c = - 1")
    case True
    with that show ?thesis by simp
  next
    case False
    with that have mem: "c \<in> set idx" by (simp add: idx_def)
    then have "index_of idx c < length idx" and "idx ! index_of idx c = c"
      by (simp_all add: index_of_less nth_index_of)
    with False that show ?thesis by (simp add: cats_def)
  qed
  have "map (\<lambda>c1. if c1 = - 1 then PNaN else index_values cats ! nat c1) codes1 =
      map (\<lambda>c. if c = - 1 then PNaN else PFloat (ns ! nat c)) codes"
    unfolding codes1_def map_map comp_def
    by (rule map_cong [OF refl]) (rule cell, simp_all)
  with rr(1) have "categorical_values cats codes1 =
      Inr (map (\<lambda>c. if c = - 1 then PNaN else PFloat (ns ! nat c)) codes)"
    by (simp add: categorical_values_def)
  with r show "sanitize_series str parse (CategoryS (NumericIndex ns) codes) =
      Inr (NumericS (map (\<lambda>c. if c = - 1 then None else Some (ns ! nat c)) codes))"
    by (simp add: sanitize_series_def cats_def to_numeric_values_floats)
next
  assume "remove_unused_categories (ObjectIndex vs) codes = Inr (ObjectIndex labels, codes') \<and>
    infer_dtype_is_string labels"
  then show "sanitize_series str parse (CategoryS (ObjectIndex vs) codes) =
      Inr (CategoryS (ObjectIndex labels) codes')"
    by (simp add: sanitize_series_def)
qed

theorem sanitize_series_numeric_categories_witness:
  "sanitize_series str_example parse_example (CategoryS (NumericIndex [1, 2, 3]) [2, - 1, 0]) =
     Inr (NumericS [Some 3, None, Some 1]) \<and>
   sanitize_series str_example parse_example
     (CategoryS (ObjectIndex [PStr ''a'', PStr ''b'', PStr ''c'']) [1, 2, 1]) =
     Inr (CategoryS (ObjectIndex [PStr ''b'', PStr ''c'']) [0, 1, 0])"
proof -
  have "list_all (code_ok (length [1, 2, 3 :: rat])) [2, - 1, 0]"
    and "remove_unused_categories (ObjectIndex [PStr ''a'', PStr ''b'', PStr ''c'']) [1, 2, 1] =
      Inr (ObjectIndex [PStr ''b'', PStr ''c''], [0, 1, 0])"
    and "infer_dtype_is_string [PStr ''b'', PStr ''c'']"
    by code_simp+
  then show ?thesis
    using sanitize_series_numeric_categories [where ns = "[1, 2, 3]" and codes = "[2, - 1, 0]"
        and str = str_example and parse = parse_example]
      sanitize_series_numeric_categories [where vs = "[PStr ''a'', PStr ''b'', PStr ''c'']"
        and codes = "[1, 2, 1]" and labels = "[PStr ''b'', PStr ''c'']" and codes' = "[0, 1, 0]"
        and str = str_example and parse = parse_example]
    by simp
qed

text \<open>
  The claim as the specification states it fails: the labels "1" and "2" both parse as
  numbers, and the column comes back categorical. So does the column of the module's test
  \<^verbatim>\<open>test_cast_mixed_category_to_str\<close>, whose labels are the number 1 and the string "2".
\<close>

theorem sanitize_series_string_labels_counterexample:
  "parse_example ''1'' = Some (Some 1) \<and> parse_example ''2'' = Some (Some 2) \<and>
   sanitize_series str_example parse_example
     (CategoryS (ObjectIndex [PStr ''1'', PStr ''2'']) [0, 1]) =
     Inr (CategoryS (ObjectIndex [PStr ''1'', PStr ''2'']) [0, 1]) \<and>
   sanitize_series str_example parse_example
     (CategoryS (ObjectIndex [PInt 1, PStr ''2'']) [0, 1]) =
     Inr (CategoryS (ObjectIndex [PStr ''1'', PStr ''2'']) [0, 1])"
  by code_simp

text \<open>
  Claim C7. Sanitize followed by autocast is idempotent on every column: running the pair
  on its own result gives that result again, and where the first run raises there is no
  result to run on.
\<close>

theorem sanitize_then_autocast_idempotent:
  "bind_exn (sanitize_then_autocast str parse x) (sanitize_then_autocast str parse) =
     sanitize_then_autocast str parse x"
proof (cases "sanitize_then_autocast str parse x")
  case (Inl e)
  then show ?thesis by simp
next
  case (Inr y)
  then show ?thesis by (simp add: sanitize_then_autocast_fixed)
qed

theorem sanitize_then_autocast_idempotent_witness:
  "sanitize_then_autocast str_example parse_example (ObjectS [PInt 10, PNone, PInt 20]) =
     Inr (NumericS [Some 10, None, Some 20]) \<and>
   sanitize_then_autocast str_example parse_example (NumericS [Some 10, None, Some 20]) =
     Inr (NumericS [Some 10, None, Some 20])"
proof -
  have "sanitize_then_autocast str_example parse_example (ObjectS [PInt 10, PNone, PInt 20]) =
      Inr (NumericS [Some 10, None, Some 20])"
    by code_simp
  then show ?thesis
    using sanitize_then_autocast_idempotent
      [of str_example parse_example "ObjectS [PInt 10, PNone, PInt 20]"]
    by simp
qed

section \<open>Properties: dates as spreadsheet serials\<close>

lemma excel_dates: "days_from_civil 1970 1 1 = 0" "days_from_civil 1900 1 1 = - 25567"
  "days_from_civil 1899 12 30 = - 25569" "days_from_civil 2020 3 1 = 18322"
  "days_from_civil 2200 1 1 = 84006"
  by (simp_all add: days_from_civil_def)

lemma traverse_all_Inr:
  "list_all (\<lambda>x. f x = Inr (g x)) xs \<Longrightarrow> traverse f xs = Inr (map g xs)"
  by (induction xs) simp_all

lemma number_table_lookup:
  assumes d: "distinct (map fst cs)" and c: "c \<in> set cs"
  shows "map_of (map (\<lambda>c. (fst c, h (snd c)))
            (filter (\<lambda>c. fst c \<in> set (map fst (filter (\<lambda>c. is_datetime64 (snd c)) cs))) cs)) (fst c) =
         (if is_datetime64 (snd c) then Some (h (snd c)) else None)"
proof -
  let ?names = "set (map fst (filter (\<lambda>c. is_datetime64 (snd c)) cs))"
  let ?nt = "map (\<lambda>c. (fst c, h (snd c))) (filter (\<lambda>c. fst c \<in> ?names) cs)"
  have same: "c' = c" if "c' \<in> set cs" "fst c' = fst c" for c'
    using d c that by (meson distinct_map inj_onD)
  have named: "fst c \<in> ?names \<longleftrightarrow> is_datetime64 (snd c)"
    using c same by auto
  show ?thesis
  proof (cases "is_datetime64 (snd c)")
    case True
    have "distinct (map fst ?nt)"
      using d by (simp add: comp_def distinct_map_filter)
    moreover have "(fst c, h (snd c)) \<in> set ?nt"
      using c named True by auto
    ultimately have "map_of ?nt (fst c) = Some (h (snd c))"
      by (rule map_of_is_SomeI)
    with True show ?thesis by simp
  next
    case False
    with named have "fst c \<notin> fst ` set ?nt" by (auto simp: image_iff)
    then have "map_of ?nt (fst c) = None" by (simp add: map_of_eq_None_iff)
    with False show ?thesis by simp
  qed
qed

lemma number_column_fits:
  "(case s of DatetimeS ts \<Rightarrow> \<not> list_ex timedelta_overflow ts | _ \<Rightarrow> True) \<Longrightarrow>
   number_column s = Inr (serial_column s)"
  by (cases s) (simp_all add: serial_column_def)

text \<open>
  Where no difference overflows, preparation does what the module's comment says: it keeps
  the rows and the labels, turns every datetime column into the numeric column of its
  serials, the serial of an instant being (instant - 1899-12-30T00:00:00) / one day, with
  a null for an instant before 1900-01-01 and for NaT, leaves every other column as it is,
  and returns a table without datetime columns unchanged. The labels of the table are
  distinct, as in every table the module receives.
\<close>

lemma prepare_table_for_excel_formulas_in_range:
  assumes "distinct (map fst (cols t))"
    and "list_all (\<lambda>c. case snd c of
            DatetimeS ts \<Rightarrow> list_all (\<lambda>x. case x of
                None \<Rightarrow> True
              | Some ns \<Rightarrow> ns - days_from_civil 1899 12 30 * one_day \<le> int64_max) ts
          | _ \<Rightarrow> True) (cols t)"
  shows "\<exists>t'. prepare_table_for_excel_formulas t = Inr t' \<and>
    nrows t' = nrows t \<and>
    map fst (cols t') = map fst (cols t) \<and>
    (\<forall>j < length (cols t).
       snd (cols t' ! j) =
         (case snd (cols t ! j) of
            DatetimeS ts \<Rightarrow>
              NumericS (map (\<lambda>x. case x of
                  None \<Rightarrow> None
                | Some ns \<Rightarrow>
                    if ns < days_from_civil 1900 1 1 * one_day then None
                    else Some (of_int (ns - days_from_civil 1899 12 30 * one_day) / of_int one_day)) ts)
          | s \<Rightarrow> s)) \<and>
    (\<not> list_ex (\<lambda>c. is_datetime64 (snd c)) (cols t) \<longrightarrow> t' = t)"
proof -
  let ?conv = "\<lambda>c. if is_datetime64 (snd c) then (fst c, serial_column (snd c)) else c"
  let ?names = "map fst (filter (\<lambda>c. is_datetime64 (snd c)) (cols t))"
  let ?dt = "filter (\<lambda>c. fst c \<in> set ?names) (cols t)"
  have serial: "excel_serial = (\<lambda>x. case x of
                  None \<Rightarrow> None
                | Some ns \<Rightarrow>
                    if ns < days_from_civil 1900 1 1 * one_day then None
                    else Some (of_int (ns - days_from_civil 1899 12 30 * one_day) / of_int one_day))"
    by (auto simp: fun_eq_iff excel_serial_def excel_1900_min_date_def excel_1900_zero_date_def
        split: option.splits)
  have fits: "case snd c of DatetimeS ts \<Rightarrow> \<not> list_ex timedelta_overflow ts | _ \<Rightarrow> True"
    if "c \<in> set (cols t)" for c
  proof (cases "snd c")
    case (DatetimeS ts)
    from assms(2) that have "case snd c of
            DatetimeS ts \<Rightarrow> list_all (\<lambda>x. case x of
                None \<Rightarrow> True
              | Some ns \<Rightarrow> ns - days_from_civil 1899 12 30 * one_day \<le> int64_max) ts
          | _ \<Rightarrow> True"
      unfolding list_all_iff by blast
    with DatetimeS have "list_all (\<lambda>x. case x of
                None \<Rightarrow> True
              | Some ns \<Rightarrow> ns - days_from_civil 1899 12 30 * one_day \<le> int64_max) ts"
      by simp
    then have "\<not> list_ex timedelta_overflow ts"
      by (auto simp: list_all_iff list_ex_iff timedelta_overflow_def excel_1900_zero_date_def
          split: option.splits)
    with DatetimeS show ?thesis by simp
  qed simp_all
  have "list_all (\<lambda>c. labelled_number_column c = Inr (fst c, serial_column (snd c))) ?dt"
    using fits by (auto simp: list_all_iff labelled_number_column_def number_column_fits)
  then have nt: "traverse labelled_number_column ?dt = Inr (map (\<lambda>c. (fst c, serial_column (snd c))) ?dt)"
    by (rule traverse_all_Inr)
  define t' where "t' = t\<lparr>cols := map ?conv (cols t)\<rparr>"
  have prep: "prepare_table_for_excel_formulas t = Inr t'"
  proof (cases "filter (\<lambda>c. is_datetime64 (snd c)) (cols t) = []")
    case True
    then have "\<forall>c \<in> set (cols t). \<not> is_datetime64 (snd c)" by (simp add: filter_empty_conv)
    then have "map ?conv (cols t) = cols t" by (simp add: map_idI)
    with True show ?thesis by (simp add: prepare_table_for_excel_formulas_def t'_def)
  next
    case False
    have "(case map_of (map (\<lambda>c. (fst c, serial_column (snd c))) ?dt) (fst c) of
             None \<Rightarrow> c | Some numbers \<Rightarrow> (fst c, numbers)) = ?conv c"
      if "c \<in> set (cols t)" for c
      using number_table_lookup [OF assms(1) that, of serial_column] by simp
    then have "map (\<lambda>c. case map_of (map (\<lambda>c. (fst c, serial_column (snd c))) ?dt) (fst c) of
             None \<Rightarrow> c | Some numbers \<Rightarrow> (fst c, numbers)) (cols t) = map ?conv (cols t)"
      by (intro map_cong) simp_all
    with False nt show ?thesis
      by (simp add: prepare_table_for_excel_formulas_def Let_def t'_def)
  qed
  have rows: "nrows t' = nrows t" by (simp add: t'_def)
  have names: "map fst (cols t') = map fst (cols t)"
    by (simp add: t'_def comp_def cong: map_cong)
  have each: "snd (cols t' ! j) =
         (case snd (cols t ! j) of DatetimeS ts \<Rightarrow> NumericS (map excel_serial ts) | s \<Rightarrow> s)"
    if "j < length (cols t)" for j
    using that by (cases "snd (cols t ! j)") (simp_all add: t'_def serial_column_def)
  have ident: "t' = t" if "\<not> list_ex (\<lambda>c. is_datetime64 (snd c)) (cols t)"
  proof -
    from that have "\<forall>c \<in> set (cols t). \<not> is_datetime64 (snd c)" by (simp add: list_ex_iff)
    then have "map ?conv (cols t) = cols t" by (simp add: map_idI)
    then show ?thesis by (simp add: t'_def)
  qed
  from prep rows names each ident show ?thesis unfolding serial [symmetric] by blast
qed

text \<open>
  Claim C5 says that preparation turns every datetime column into its serials. The code
  does so only while the difference between the instant and 1899-12-30 fits a timedelta
  of 64 bits, that is up to the instant 7014210436854775807 ns (2192-04-08). For the
  column that holds 2200-01-01T00:00:00 the subtraction raises \<^verbatim>\<open>OverflowError\<close>,
  and \<^verbatim>\<open>render\<close>, which prepares the table outside its \<^verbatim>\<open>try\<close>, lets it through.
\<close>

theorem prepare_table_overflow:
  "cols table_2200 = [(''A'', DatetimeS [Some 7258118400000000000])] \<and>
   prepare_table_for_excel_formulas table_2200 = Inl overflow_error \<and>
   render runtime_example (Some table_2200) (excel_params ''=1+1'' False) = Inl overflow_error \<and>
   prepare_table_for_excel_formulas
     \<lparr>nrows = 1, cols = [(''A'', DatetimeS [Some 7014210436854775807])]\<rparr> =
     Inr \<lparr>nrows = 1, cols = [(''A'', NumericS [Some (9223372036854775807 / 86400000000000)])]\<rparr> \<and>
   prepare_table_for_excel_formulas
     \<lparr>nrows = 1, cols = [(''A'', DatetimeS [Some 7014210436854775808])]\<rparr> = Inl overflow_error"
  by (intro conjI; code_simp)

section \<open>Properties: the ranges of a spreadsheet formula\<close>

lemma take_drop_nth: "take (m - k) (drop k xs) = map (\<lambda>i. xs ! i) [k..<min m (length xs)]"
proof (rule nth_equalityI)
  show "length (take (m - k) (drop k xs)) = length (map (\<lambda>i. xs ! i) [k..<min m (length xs)])"
    by auto
next
  fix i assume "i < length (take (m - k) (drop k xs))"
  then have i: "i < m - k" "k + i < length xs" by auto
  then have "i < min m (length xs) - k" by simp
  then have "map (\<lambda>i. xs ! i) [k..<min m (length xs)] ! i = xs ! (k + i)"
    by (rule nth_map_upt)
  moreover have "take (m - k) (drop k xs) ! i = xs ! (k + i)"
    using i by simp
  ultimately show "take (m - k) (drop k xs) ! i = map (\<lambda>i. xs ! i) [k..<min m (length xs)] ! i"
    by simp
qed

lemma py_slice_nth:
  assumes "0 \<le> a" and "0 \<le> b"
  shows "py_slice xs a b = map (\<lambda>i. xs ! i) [nat a..<min (nat b) (length xs)]"
proof (cases "nat a \<le> length xs")
  case True
  with assms show ?thesis
    by (simp add: py_slice_def slice_bound_def take_drop_nth min_absorb1)
next
  case False
  with assms show ?thesis
    by (simp add: py_slice_def slice_bound_def)
qed

lemma length_table_values: "length (table_values t) = nrows t"
  by (simp add: table_values_def)

lemma table_values_nth:
  "i < nrows t \<Longrightarrow> table_values t ! i = map (\<lambda>c. cell (snd c) i) (cols t)"
  by (simp add: table_values_def)

lemma iloc_cells:
  assumes "0 \<le> r1" and "r1 < r2" and "0 \<le> c1" and "c1 < c2" and "c2 \<le> int (length (cols t))"
  shows "concat (map (\<lambda>row. py_slice row c1 c2) (py_slice (table_values t) r1 r2)) =
     concat (map (\<lambda>i. map (\<lambda>j. cell (snd (cols t ! j)) i) [nat c1..<nat c2])
       [nat r1..<min (nat r2) (nrows t)])"
proof -
  have row: "py_slice (table_values t ! i) c1 c2 = map (\<lambda>j. cell (snd (cols t ! j)) i) [nat c1..<nat c2]"
    if "i < nrows t" for i
  proof -
    have m: "min (nat c2) (length (cols t)) = nat c2" using assms(5) by simp
    have "map (\<lambda>c. cell (snd c) i) (cols t) ! j = cell (snd (cols t ! j)) i" if "j < nat c2" for j
      using that assms(5) by (intro nth_map) simp
    then have "map (\<lambda>j. map (\<lambda>c. cell (snd c) i) (cols t) ! j) [nat c1..<nat c2] =
        map (\<lambda>j. cell (snd (cols t ! j)) i) [nat c1..<nat c2]"
      by (intro map_cong) simp_all
    then show ?thesis
      using \<open>i < nrows t\<close> assms(3,4) by (simp add: table_values_nth py_slice_nth m)
  qed
  have "map (\<lambda>row. py_slice row c1 c2) (py_slice (table_values t) r1 r2) =
      map (\<lambda>i. map (\<lambda>j. cell (snd (cols t ! j)) i) [nat c1..<nat c2]) [nat r1..<min (nat r2) (nrows t)]"
    using assms(1,2) by (simp add: py_slice_nth length_table_values row)
  then show ?thesis by simp
qed

text \<open>
  Claim C4. In the mode of one row, an input that resolved to one range is refused as out
  of bounds exactly when, with \<open>row_start = r1 - 1\<close>, \<open>row_end = r2\<close>,
  \<open>col_start = n1 - 1\<close> and \<open>col_end = n2\<close>, one of \<open>row_start < 0\<close>,
  \<open>col_start < 0\<close>, \<open>col_end > column count\<close>, \<open>row_start \<ge> row_end\<close>,
  \<open>col_start \<ge> col_end\<close> holds. Otherwise the argument is made of the cells of the rows
  from \<open>row_start\<close> up to \<open>row_end\<close> or the last row of the table, whichever comes
  first: a \<open>row_end\<close> beyond the table is no error, the slice is clamped.
\<close>

theorem one_row_arg_bounds:
  "one_row_arg t (token, Some [rng]) =
     (if rg_r1 rng - 1 < 0 \<or> rg_n1 rng - 1 < 0 \<or> rg_n2 rng > int (length (cols t)) \<or>
         rg_r1 rng - 1 \<ge> rg_r2 rng \<or> rg_n1 rng - 1 \<ge> rg_n2 rng
      then Inl (one_row_bad_ref (rg_ref rng))
      else Inr (flatten_single_element_lists
             (concat (map (\<lambda>i. map (\<lambda>j. cell (snd (cols t ! j)) i)
                                [nat (rg_n1 rng - 1)..<nat (rg_n2 rng)])
                        [nat (rg_r1 rng - 1)..<min (nat (rg_r2 rng)) (nrows t)]))))"
proof (cases "rg_r1 rng - 1 < 0 \<or> rg_n1 rng - 1 < 0 \<or> rg_n2 rng > int (length (cols t)) \<or>
         rg_r1 rng - 1 \<ge> rg_r2 rng \<or> rg_n1 rng - 1 \<ge> rg_n2 rng")
  case True
  then show ?thesis by (simp add: one_row_arg_def Let_def)
next
  case False
  then have "0 \<le> rg_r1 rng - 1" "rg_r1 rng - 1 < rg_r2 rng" "0 \<le> rg_n1 rng - 1"
    "rg_n1 rng - 1 < rg_n2 rng" "rg_n2 rng \<le> int (length (cols t))"
    by auto
  from iloc_cells [OF this] False show ?thesis
    by (simp add: one_row_arg_def Let_def)
qed

theorem one_row_arg_bounds_witness:
  "one_row_arg table_A (''A1:A3'', Some [cell_range 1 3 1 1 ''A1:A3'']) =
     Inr (Cells [PFloat 1, PFloat 2]) \<and>
   one_row_arg table_A (''A2'', Some [cell_range 2 2 1 1 ''A2'']) = Inr (Scalar (PFloat 2)) \<and>
   one_row_arg table_A (''A1:B1'', Some [cell_range 1 1 1 2 ''A1:B1'']) =
     Inl (one_row_bad_ref ''A1:B1'')"
proof -
  have "one_row_arg table_A (''A1:A3'', Some [cell_range 1 3 1 1 ''A1:A3'']) =
      Inr (Cells [PFloat 1, PFloat 2])"
    and "one_row_arg table_A (''A2'', Some [cell_range 2 2 1 1 ''A2'']) = Inr (Scalar (PFloat 2))"
    and "one_row_arg table_A (''A1:B1'', Some [cell_range 1 1 1 2 ''A1:B1'']) =
      Inl (one_row_bad_ref ''A1:B1'')"
    by code_simp+
  then show ?thesis
    using one_row_arg_bounds [of table_A "''A1:A3''" "cell_range 1 3 1 1 ''A1:A3''"] by simp
qed

text \<open>
  Claim C2 says that in both modes an input that resolved to more than one range fails
  with the error of a range that is not rectangular. The mode of one row does so. The
  loop of the mode of all rows has no such check: for the formula \<^verbatim>\<open>=SUM((A1,B1))\<close>,
  whose only input resolved to the ranges A1 and B1, both ranges pass the checks,
  \<^verbatim>\<open>col_idx\<close> gets one entry per range, and the call of the compiled formula with two
  arguments for its one input raises \<^verbatim>\<open>TypeError\<close>, which \<^verbatim>\<open>render\<close> does not catch.
\<close>

theorem all_rows_two_ranges:
  "code_inputs code_union =
     [(''A1,B1'', Some [cell_range 1 1 1 1 ''A1'', cell_range 1 1 2 2 ''B1''])] \<and>
   all_rows_col_idx code_union table_AB = Inr [[0], [1]] \<and>
   eval_excel_all_rows code_union table_AB = Inl too_many_arguments \<and>
   render runtime_example (Some table_AB) (excel_params ''=SUM((A1,B1))'' True) =
     Inl too_many_arguments \<and>
   eval_excel_one_row code_union table_AB = Inl cell_range_not_rectangular \<and>
   render runtime_example (Some table_AB) (excel_params ''=SUM((A1,B1))'' False) =
     Inr (RMessage (I18nMessage ''excel.one_row.cellRangeNotRectangular'' []))"
proof -
  have "code_inputs code_union =
     [(''A1,B1'', Some [cell_range 1 1 1 1 ''A1'', cell_range 1 1 2 2 ''B1''])]"
    by (simp add: code_union_def)
  moreover have "all_rows_col_idx code_union table_AB = Inr [[0], [1]]"
    and "eval_excel_all_rows code_union table_AB = Inl too_many_arguments"
    and "render runtime_example (Some table_AB) (excel_params ''=SUM((A1,B1))'' True) =
     Inl too_many_arguments"
    and "eval_excel_one_row code_union table_AB = Inl cell_range_not_rectangular"
    and "render runtime_example (Some table_AB) (excel_params ''=SUM((A1,B1))'' False) =
     Inr (RMessage (I18nMessage ''excel.one_row.cellRangeNotRectangular'' []))"
    by code_simp+
  ultimately show ?thesis by (intro conjI)
qed

section \<open>Properties: the column of the mode of one row\<close>

text \<open>
  Claim C6 says that the column of the mode of one row, built without sanitize and
  autocast, has one cell per row of the table and a canonical storage type. For the
  formula \<^verbatim>\<open>=A1=1\<close> on a table of two rows the value is \<^verbatim>\<open>True\<close> and the column is
  \<^verbatim>\<open>pd.Series([True, None])\<close>, a column of objects that holds a boolean: it is not
  canonical, while sanitize and autocast, which the mode of all rows applies, would have
  made it the column of strings "True" and null. On a table without rows the list is
  \<^verbatim>\<open>[value]\<close>, so the column has one cell.
\<close>

theorem excel_formula_one_row_bool:
  "eval_excel_one_row code_is_one table_A = Inr (PBool True) \<and>
   excel_formula runtime_example table_A ''=A1=1'' False = Inr (ObjectS [PBool True, PNone]) \<and>
   canonical_column (ObjectS [PBool True, PNone]) = False \<and>
   sanitize_then_autocast str_example parse_example (ObjectS [PBool True, PNone]) =
     Inr (ObjectS [PStr ''True'', PNaN]) \<and>
   canonical_column (ObjectS [PStr ''True'', PNaN]) = True \<and>
   nrows table_no_rows = 0 \<and>
   excel_formula runtime_example table_no_rows ''=1+1'' False = Inr (NumericS [Some 2]) \<and>
   series_len (NumericS [Some 2]) = 1"
  by (intro conjI; code_simp)

section \<open>Properties: render\<close>









































section \<open>Properties: parameter migration\<close>

text \<open>
  Claim C9. Migration rewrites the legacy numeric field \<^verbatim>\<open>syntax\<close> (0 to "excel", 1 to
  "python"), returns a configuration whose \<^verbatim>\<open>syntax\<close> is already a string as it is, and
  migrating twice is migrating once: whatever the first migration does (return a
  configuration or raise), migrating its result again changes nothing.
\<close>

theorem migrate_params_idempotent:
  "(params ''syntax'' = Some (ParamInt 0) \<longrightarrow>
      migrate_params params = Inr (params(''syntax'' \<mapsto> ParamStr ''excel''))) \<and>
   (params ''syntax'' = Some (ParamInt 1) \<longrightarrow>
      migrate_params params = Inr (params(''syntax'' \<mapsto> ParamStr ''python''))) \<and>
   (\<forall>s. params ''syntax'' = Some (ParamStr s) \<longrightarrow> migrate_params params = Inr params) \<and>
   bind_exn (migrate_params params) migrate_params = migrate_params params"
  by (auto simp: migrate_params_def migrate_params_v0_to_v1_def py_getitem_def py_index_def
      Let_def split: option.splits param.splits)

theorem migrate_params_idempotent_witness:
  "migrate_params [''syntax'' \<mapsto> ParamInt 0, ''all_rows'' \<mapsto> ParamBool True] =
     Inr ([''syntax'' \<mapsto> ParamInt 0, ''all_rows'' \<mapsto> ParamBool True](''syntax'' \<mapsto> ParamStr ''excel'')) \<and>
   migrate_params [''syntax'' \<mapsto> ParamStr ''python''] = Inr [''syntax'' \<mapsto> ParamStr ''python'']"
  using migrate_params_idempotent [of "[''syntax'' \<mapsto> ParamInt 0, ''all_rows'' \<mapsto> ParamBool True]"]
    migrate_params_idempotent [of "[''syntax'' \<mapsto> ParamStr ''python'']"]
  by simp

section \<open>Properties: the name of the output column\<close>

lemma get_output_column_loop_spec:
  "out_column @ str_nat (get_output_column_loop columns out_column n) \<notin> set columns \<and>
   n \<le> get_output_column_loop columns out_column n \<and>
   (\<forall>m. n \<le> m \<and> m < get_output_column_loop columns out_column n \<longrightarrow>
      out_column @ str_nat m \<in> set columns)"
proof (induction columns out_column n rule: get_output_column_loop.induct)
  case (1 columns out_column n)
  show ?case
  proof (cases "out_column @ str_nat n \<in> set columns")
    case True
    define r where "r = get_output_column_loop columns out_column (Suc n)"
    have eq: "get_output_column_loop columns out_column n = r"
      using True by (subst get_output_column_loop.simps) (simp add: r_def)
    from 1 [OF True] have ih: "out_column @ str_nat r \<notin> set columns" "Suc n \<le> r"
      "\<And>m. Suc n \<le> m \<Longrightarrow> m < r \<Longrightarrow> out_column @ str_nat m \<in> set columns"
      by (simp_all add: r_def)
    have "out_column @ str_nat m \<in> set columns" if "n \<le> m" "m < r" for m
    proof (cases "m = n")
      case True
      with \<open>out_column @ str_nat n \<in> set columns\<close> show ?thesis by simp
    next
      case False
      with that have "Suc n \<le> m" by simp
      then show ?thesis using that ih(3) by blast
    qed
    with ih show ?thesis unfolding eq by simp
  next
    case False
    then have "get_output_column_loop columns out_column n = n"
      by (subst get_output_column_loop.simps) simp
    with False show ?thesis by auto
  qed
qed

text \<open>
  Claim C8. An empty requested name stands for "result". A name that is not a column of
  the table is used as it is; otherwise the name is followed by the smallest \<open>n \<ge> 0\<close>
  (in decimal) that gives a name the table does not have. With columns A and result the
  default request gives result0; with A, result and result0 it gives result1.
\<close>

theorem get_output_column_spec:
  "name = (if out_column = [] then ''result'' else out_column) \<Longrightarrow>
   (name \<notin> set columns \<longrightarrow> get_output_column columns out_column = name) \<and>
   (name \<in> set columns \<longrightarrow>
      (\<exists>n. get_output_column columns out_column = name @ str_nat n \<and>
           name @ str_nat n \<notin> set columns \<and>
           (\<forall>m<n. name @ str_nat m \<in> set columns)))"
  using get_output_column_loop_spec [of name columns 0]
  by (auto simp: get_output_column_def Let_def)

theorem get_output_column_spec_witness:
  "get_output_column [''A'', ''result''] [] = ''result0'' \<and>
   get_output_column [''A'', ''result'', ''result0''] [] = ''result1'' \<and>
   get_output_column [''A''] [] = ''result'' \<and>
   get_output_column [''A''] ''R'' = ''R'' \<and>
   get_output_column [''A'', ''R''] ''R'' = ''R0''"
proof -
  have "get_output_column [''A'', ''result''] [] = ''result0''"
    and "get_output_column [''A'', ''result'', ''result0''] [] = ''result1''"
    and "get_output_column [''A''] [] = ''result''"
    and "get_output_column [''A''] ''R'' = ''R''"
    and "get_output_column [''A'', ''R''] ''R'' = ''R0''"
    by code_simp+
  then show ?thesis
    using get_output_column_spec [of "''result''" "[]" "[''A'', ''result'']"] by simp
qed

section \<open>Properties: expression mode\<close>

lemma foldl_upd_rightmost:
  "j < length ps \<Longrightarrow> fst (ps ! j) = k \<Longrightarrow>
   (\<forall>j'. j < j' \<and> j' < length ps \<longrightarrow> fst (ps ! j') \<noteq> k) \<Longrightarrow>
   foldl dict_set d0 ps k = Some (snd (ps ! j))"
proof (induction ps rule: rev_induct)
  case Nil
  then show ?case by simp
next
  case (snoc p ps)
  show ?case
  proof (cases "j = length ps")
    case True
    have "dict_set d p (fst p) = Some (snd p)" for d :: "'a \<rightharpoonup> 'b"
      by (simp add: dict_set_def)
    with True snoc.prems(2) show ?thesis by auto
  next
    case False
    with snoc.prems have j: "j < length ps" by simp
    have "fst p \<noteq> k" using snoc.prems(3) [rule_format, of "length ps"] j by simp
    then have step: "dict_set d p k = d k" for d :: "'a \<rightharpoonup> 'b"
      by (auto simp: dict_set_def)
    have "foldl dict_set d0 ps k = Some (snd (ps ! j))"
    proof (rule snoc.IH [OF j])
      show "fst (ps ! j) = k" using snoc.prems(2) j by (simp add: nth_append)
      show "\<forall>j'. j < j' \<and> j' < length ps \<longrightarrow> fst (ps ! j') \<noteq> k"
        using snoc.prems(3) by (auto simp: nth_append split: if_splits)
    qed
    then show ?thesis using j by (simp add: nth_append step)
  qed
qed

text \<open>
  Claim C10. When several column names give the same identifier once their spaces are
  underscores, the names of a row bind that identifier to the cell of the rightmost of
  these columns: the cells of the earlier ones cannot be reached under that identifier.
\<close>

theorem row_locals_rightmost:
  assumes "length row = length columns" and "j < length columns"
    and "replace_spaces (columns ! j) = ident"
    and "\<forall>j'. j < j' \<and> j' < length columns \<longrightarrow> replace_spaces (columns ! j') \<noteq> ident"
  shows "row_locals columns row ident = Some (row ! j)"
proof -
  let ?ps = "zip (map replace_spaces columns) row"
  have "foldl dict_set Map.empty ?ps ident = Some (snd (?ps ! j))"
    using assms by (intro foldl_upd_rightmost) auto
  then show ?thesis using assms by (simp add: row_locals_def dict_zip_def)
qed

theorem row_locals_rightmost_witness:
  "replace_spaces ''a b'' = ''a_b'' \<and>
   row_locals [''a b'', ''c'', ''a_b''] [PInt 1, PInt 2, PInt 3] ''a_b'' = Some (PInt 3) \<and>
   row_locals [''a_b'', ''c'', ''a b''] [PInt 1, PInt 2, PInt 3] ''a_b'' = Some (PInt 3)"
  using row_locals_rightmost [of "[PInt 1, PInt 2, PInt 3]" "[''a b'', ''c'', ''a_b'']" 2 "''a_b''"]
  by (simp add: row_locals_def dict_zip_def replace_spaces_def dict_set_def)

end
